theory Spec2Isabelle
  imports Main "HOL-Library.Word"
begin

section \<open>godocker: a facade over the container engine's client library\<close>

text \<open>
  The embedding follows \<^verbatim>\<open>docker.go\<close>. Everything the package does goes through
  libraries it imports (the engine's HTTP client, \<^verbatim>\<open>encoding/json\<close>, the \<^verbatim>\<open>os\<close> and
  \<^verbatim>\<open>filepath\<close> packages, the archive builder). Their behaviour is not part of the
  repository, so it enters the model as data: a response stream is the sequence of results
  its JSON decoder yields, the engine's client is a record of its answers, and the local
  library calls are a record of functions. The \<^verbatim>\<open>context.Context\<close> argument is only handed
  on to the client and is left out.
\<close>

subsection \<open>Errors\<close>

text \<open>\<^verbatim>\<open>jsonmessage.JSONError\<close>: the error object embedded in a message of the stream.\<close>

record JSONError =
  Code :: int
  Message :: string

text \<open>
  The values of Go's \<^verbatim>\<open>error\<close> interface that occur: \<^verbatim>\<open>io.EOF\<close>; an error of the
  \<^verbatim>\<open>os\<close> package for which \<^verbatim>\<open>os.IsNotExist\<close> holds; any other error value made by a
  library (told apart by its text); a \<^verbatim>\<open>*JSONError\<close> taken from a message;
  \<^verbatim>\<open>errors.New(msg)\<close>; and \<^verbatim>\<open>fmt.Errorf(...)\<close>, with the formatted text.
\<close>

datatype error =
    EOF
  | NotExist string
  | LibError string
  | JSONErr JSONError
  | ErrorsNew string
  | FmtErrorf string

text \<open>The \<^verbatim>\<open>Error()\<close> method, which the verbs \<^verbatim>\<open>%v\<close> and \<^verbatim>\<open>%s\<close> print.\<close>

fun Error_of :: "error \<Rightarrow> string" where
  "Error_of EOF = ''EOF''"
| "Error_of (NotExist s) = s"
| "Error_of (LibError s) = s"
| "Error_of (JSONErr e) = Message e"
| "Error_of (ErrorsNew s) = s"
| "Error_of (FmtErrorf s) = s"

text \<open>\<^verbatim>\<open>os.IsNotExist(err)\<close>, on a possibly nil error.\<close>

fun IsNotExist :: "error option \<Rightarrow> bool" where
  "IsNotExist (Some (NotExist s)) = True"
| "IsNotExist e = False"

text \<open>
  How a call ends: it returns a value, it panics, or it never returns.
\<close>

datatype 'a outcome = Returns 'a | Panics | Diverges

subsection \<open>Response streams\<close>

text \<open>
  \<^verbatim>\<open>jsonmessage.JSONMessage\<close>, with the two fields \<^verbatim>\<open>detectErrorMessage\<close> reads and
  two of the fields it ignores.
\<close>

record JSONMessage =
  Stream :: string
  Status :: string
  Error :: "JSONError option"
  ErrorMessage :: string

text \<open>
  A reader as \<^verbatim>\<open>json.Decoder.Decode\<close> sees it: the next call either fails with an error
  (\<^verbatim>\<open>io.EOF\<close> at the end of a well-formed stream) or yields a message and leaves the rest
  of the stream. A reader need not end, hence a codatatype.
\<close>

codatatype reader =
    Failed error
  | Decoded JSONMessage reader

text \<open>The reader that yields the messages \<open>ms\<close> and then goes on as \<open>r\<close>.\<close>

fun feed :: "JSONMessage list \<Rightarrow> reader \<Rightarrow> reader" where
  "feed [] r = r"
| "feed (m # ms) r = Decoded m (feed ms r)"

text \<open>
  The \<^verbatim>\<open>for\<close> loop of \<^verbatim>\<open>detectErrorMessage\<close> (lines 304-325): \<open>None\<close> when the loop
  never ends, \<open>Some None\<close> for \<^verbatim>\<open>return nil\<close>, \<open>Some (Some e)\<close> for an error.
\<close>

partial_function (option) decodeLoop :: "reader \<Rightarrow> error option option" where
  "decodeLoop dec =
     (case dec of
        Failed err \<Rightarrow> if err = EOF then Some None else Some (Some err)
      | Decoded jm rest \<Rightarrow>
          (case Error jm of
             Some e \<Rightarrow> Some (Some (JSONErr e))
           | None \<Rightarrow>
               if length (ErrorMessage jm) > 0 then Some (Some (ErrorsNew (ErrorMessage jm)))
               else decodeLoop rest))"

declare decodeLoop.simps [code]

text \<open>
  \<^verbatim>\<open>detectErrorMessage(in)\<close>. A nil reader makes the decoder's first read dereference
  nil, which panics.
\<close>

definition detectErrorMessage :: "reader option \<Rightarrow> error option outcome" where
  "detectErrorMessage inp =
     (case inp of
        None \<Rightarrow> Panics
      | Some dec \<Rightarrow> (case decodeLoop dec of None \<Rightarrow> Diverges | Some r \<Rightarrow> Returns r))"

text \<open>
  The specification's notion of the error a message carries: its \<^verbatim>\<open>Error\<close> object if
  present, otherwise an error built from its \<^verbatim>\<open>ErrorMessage\<close> if that is not empty.
\<close>

definition embedded_error :: "JSONMessage \<Rightarrow> error option" where
  "embedded_error jm =
     (case Error jm of
        Some e \<Rightarrow> Some (JSONErr e)
      | None \<Rightarrow> if ErrorMessage jm \<noteq> [] then Some (ErrorsNew (ErrorMessage jm)) else None)"

subsection \<open>The engine's client\<close>

text \<open>
  \<^verbatim>\<open>types.ImageSummary\<close>, the engine's record of one image, and \<^verbatim>\<open>ImageSummary\<close>,
  the package's own record with the same ten fields (lines 32-43). \<^verbatim>\<open>int64\<close> is a
  64-bit word, a Go map a partial function.
\<close>

record types_ImageSummary =
  types_Containers :: "64 word"
  types_Created :: "64 word"
  types_ID :: string
  types_Labels :: "string \<rightharpoonup> string"
  types_ParentID :: string
  types_RepoDigests :: "string list"
  types_RepoTags :: "string list"
  types_SharedSize :: "64 word"
  types_Size :: "64 word"
  types_VirtualSize :: "64 word"

record ImageSummary =
  Containers :: "64 word"
  Created :: "64 word"
  ID :: string
  Labels :: "string \<rightharpoonup> string"
  ParentID :: string
  RepoDigests :: "string list"
  RepoTags :: "string list"
  SharedSize :: "64 word"
  Size :: "64 word"
  VirtualSize :: "64 word"

text \<open>\<^verbatim>\<open>types.AuthConfig\<close>; \<^verbatim>\<open>NewClient\<close> sets these two fields and leaves the others empty.\<close>

record AuthConfig =
  Username :: string
  Password :: string

text \<open>
  The option structs of the client library, with the fields that \<^verbatim>\<open>docker.go\<close> sets;
  every other field keeps its zero value. \<^verbatim>\<open>ImagePushOptions\<close> is the library's
  other name for \<^verbatim>\<open>ImagePullOptions\<close>; its \<^verbatim>\<open>RegistryAuth\<close> is empty unless set.
  \<^verbatim>\<open>map[string]*string\<close> maps a name to a possibly nil pointer.
\<close>

record ImageBuildOptions =
  Tags :: "string list"
  NoCache :: bool
  Remove :: bool
  ForceRemove :: bool
  PullParent :: bool
  Dockerfile :: string
  AuthConfigs :: "string \<rightharpoonup> AuthConfig"
  BuildArgs :: "string \<rightharpoonup> string option"

record ImagePullOptions =
  RegistryAuth :: string

type_synonym ImagePushOptions = ImagePullOptions

text \<open>
  \<^verbatim>\<open>filters.Args\<close> of the client library: a map from a filter's name to the set of its
  values (\<^verbatim>\<open>map[string]map[string]bool\<close>). \<^verbatim>\<open>NewArgs()\<close> is the empty one and
  \<^verbatim>\<open>Add(name, value)\<close> puts one value under one name.
\<close>

type_synonym Args = "string \<rightharpoonup> string set"

definition NewArgs :: Args where
  "NewArgs = Map.empty"

definition Add :: "Args \<Rightarrow> string \<Rightarrow> string \<Rightarrow> Args" where
  "Add args name v =
     (case args name of
        Some vs \<Rightarrow> args(name \<mapsto> insert v vs)
      | None \<Rightarrow> args(name \<mapsto> {v}))"

record ImageListOptions =
  Filters :: Args

record ImageBuildResponse =
  Body :: "reader option"

text \<open>The build context: the bytes of a tar archive behind an \<^verbatim>\<open>io.ReadCloser\<close>.\<close>

type_synonym archive = string

text \<open>
  \<^verbatim>\<open>*client.Client\<close>: what the engine answers to each request. A Go call returns a
  value and an error side by side, and \<^verbatim>\<open>docker.go\<close> tests the two separately, so
  both are kept (\<open>None\<close> is nil). What \<^verbatim>\<open>ImageRemove\<close> returns besides the error is
  dropped by \<^verbatim>\<open>Rmi\<close>.
\<close>

record Client =
  ImageBuild :: "archive \<Rightarrow> ImageBuildOptions \<Rightarrow> ImageBuildResponse \<times> error option"
  ImagePull :: "string \<Rightarrow> ImagePullOptions \<Rightarrow> reader option \<times> error option"
  ImagePush :: "string \<Rightarrow> ImagePushOptions \<Rightarrow> reader option \<times> error option"
  ImageList :: "ImageListOptions \<Rightarrow> types_ImageSummary list \<times> error option"
  ImageTag :: "string \<Rightarrow> string \<Rightarrow> error option"
  ImageRemove :: "string \<Rightarrow> error option"

text \<open>
  What an operation does to the outside, in order: the requests it sends to the engine and
  the \<^verbatim>\<open>Close()\<close> calls on the response stream and on the build context.
\<close>

datatype event =
    CallImageBuild archive ImageBuildOptions
  | CallImagePull string ImagePullOptions
  | CallImagePush string ImagePushOptions
  | CallImageList ImageListOptions
  | CallImageTag string string
  | CallImageRemove string
  | CloseBody
  | CloseBuildContext

fun is_call :: "event \<Rightarrow> bool" where
  "is_call CloseBody = False"
| "is_call CloseBuildContext = False"
| "is_call e = True"

definition calls :: "event list \<Rightarrow> event list" where
  "calls evs = filter is_call evs"

subsection \<open>Local libraries\<close>

datatype Compression = Uncompressed | Bzip2 | Gzip | Xz

record TarOptions =
  Compression :: Compression
  ExcludePatterns :: "string list"
  IncludeFiles :: "string list"

text \<open>An open \<^verbatim>\<open>*os.File\<close>, as its content.\<close>

type_synonym os_File = string

text \<open>
  The library functions \<^verbatim>\<open>NewClient\<close> and \<^verbatim>\<open>CreateTar\<close> call, as they answer on the
  machine at hand. A function that returns a value or an error is a sum with the error on
  the left; \<^verbatim>\<open>os.Lstat\<close> is kept by its error alone (\<open>None\<close>: the file is there), and
  \<^verbatim>\<open>CanonicalTarNameForPath\<close> and \<^verbatim>\<open>fileutils.Matches\<close> keep both results because the code
  uses the value next to the error.
\<close>

record env =
  client_NewClient :: "string \<Rightarrow> string \<Rightarrow> error + Client"
  json_Marshal :: "AuthConfig \<Rightarrow> string \<times> error option"
  base64_URLEncoding_EncodeToString :: "string \<Rightarrow> string"
  filepath_Join :: "string \<Rightarrow> string \<Rightarrow> string"
  filepath_Abs :: "string \<Rightarrow> error + string"
  filepath_Rel :: "string \<Rightarrow> string \<Rightarrow> error + string"
  path_Join :: "string \<Rightarrow> string \<Rightarrow> string"
  os_Lstat :: "string \<Rightarrow> error option"
  os_Open :: "string \<Rightarrow> error + os_File"
  dockerignore_ReadAll :: "os_File \<Rightarrow> error + string list"
  fileutils_Matches :: "string \<Rightarrow> string list \<Rightarrow> bool \<times> error option"
  builder_ValidateContextDirectory :: "string \<Rightarrow> string list \<Rightarrow> error option"
  archive_CanonicalTarNameForPath :: "string \<Rightarrow> string \<times> error option"
  archive_TarWithOptions :: "string \<Rightarrow> TarOptions \<Rightarrow> error + archive"

text \<open>\<^verbatim>\<open>strings.ToLower\<close> on ASCII; its only argument here is \<^verbatim>\<open>defaultDockerfile\<close>.\<close>

definition ToLower :: "string \<Rightarrow> string" where
  "ToLower s =
     map (\<lambda>c. if 65 \<le> (of_char c :: nat) \<and> (of_char c :: nat) \<le> 90
               then char_of (of_char c + (32 :: nat)) else c) s"

subsection \<open>The package\<close>

definition defaultDockerAPIVersion :: string where
  "defaultDockerAPIVersion = ''v1.23''"

definition defaultDockerfile :: string where
  "defaultDockerfile = ''Dockerfile''"

definition defaultDockerHost :: string where
  "defaultDockerHost = ''tcp://127.0.0.1:2376''"

record dockerCmd =
  cli :: Client
  dockerHost :: string
  registry :: string
  registryAuthString :: string
  registryAuthMap :: "string \<rightharpoonup> AuthConfig"
  noCache :: bool
  forceRm :: bool
  pull :: bool

record Configs =
  Host :: string
  Registry :: string
  User :: string
  Passwd :: string

text \<open>\<^verbatim>\<open>NewClient\<close> (lines 75-101). The error of \<^verbatim>\<open>json.Marshal\<close> is discarded.\<close>

definition NewClient :: "env \<Rightarrow> Configs \<Rightarrow> error + dockerCmd" where
  "NewClient env cfg =
     (case client_NewClient env (Host cfg) defaultDockerAPIVersion of
        Inl err \<Rightarrow> Inl err
      | Inr c \<Rightarrow>
          let auth = \<lparr>Username = User cfg, Password = Passwd cfg\<rparr>;
              authBytes = fst (json_Marshal env auth);
              authBase64 = base64_URLEncoding_EncodeToString env authBytes
          in Inr \<lparr>cli = c,
                  dockerHost = Host cfg,
                  registry = Registry cfg,
                  registryAuthString = authBase64,
                  registryAuthMap = [Registry cfg \<mapsto> auth],
                  noCache = True,
                  forceRm = True,
                  pull = True\<rparr>)"

text \<open>
  Lines 215 and 222-237 of \<^verbatim>\<open>CreateTar\<close>: the values of \<^verbatim>\<open>dockerfileName\<close> and
  \<^verbatim>\<open>filename\<close> on reaching line 239, once \<^verbatim>\<open>absContextDirectory\<close> is known.
\<close>

definition dockerfilePath :: "env \<Rightarrow> string \<Rightarrow> string \<Rightarrow> string \<Rightarrow> string \<times> string" where
  "dockerfilePath env contextDirectory absContextDirectory dockerfile =
     (let dockerfileName = filepath_Join env contextDirectory dockerfile;
          filename = dockerfileName
      in if dockerfile = '''' then
           let dockerfileName = defaultDockerfile;
               filename = filepath_Join env absContextDirectory dockerfileName
           in if IsNotExist (os_Lstat env filename) then
                let tmpFN = path_Join env absContextDirectory (ToLower dockerfileName)
                in if os_Lstat env tmpFN = None then (ToLower dockerfileName, tmpFN)
                   else (dockerfileName, filename)
              else (dockerfileName, filename)
         else (dockerfileName, filename))"

text \<open>
  \<^verbatim>\<open>CreateTar\<close> (lines 214-299). Each \<^verbatim>\<open>return nil, err\<close> is a left result. The
  errors of the two \<^verbatim>\<open>fileutils.Matches\<close> calls are discarded, as is every error of the
  last \<^verbatim>\<open>os.Lstat\<close> other than a missing file.
\<close>

definition CreateTar :: "env \<Rightarrow> string \<Rightarrow> string \<Rightarrow> error + archive" where
  "CreateTar env contextDirectory dockerfile =
     (case filepath_Abs env contextDirectory of
        Inl err \<Rightarrow> Inl err
      | Inr absContextDirectory \<Rightarrow>
          (case dockerfilePath env contextDirectory absContextDirectory dockerfile of
             (origDockerfile, filename) \<Rightarrow>
               (case filepath_Abs env filename of
                  Inl err \<Rightarrow> Inl err
                | Inr filename \<Rightarrow>
                    (case filepath_Rel env absContextDirectory filename of
                       Inl err \<Rightarrow> Inl err
                     | Inr dockerfileName \<Rightarrow>
                         (case archive_CanonicalTarNameForPath env dockerfileName of
                            (dockerfileName, Some err) \<Rightarrow>
                              Inl (FmtErrorf (''Cannot canonicalize dockerfile path '' @
                                     dockerfileName @ '': '' @ Error_of err))
                          | (dockerfileName, None) \<Rightarrow>
                              if IsNotExist (os_Lstat env filename) then
                                Inl (FmtErrorf (''Cannot locate Dockerfile: '' @ origDockerfile))
                              else
                                let includes = [''.''];
                                    dockerIgnorePath = path_Join env contextDirectory ''.dockerignore''
                                in (case (case os_Open env dockerIgnorePath of
                                            Inl err \<Rightarrow>
                                              if \<not> IsNotExist (Some err) then Inl err else Inr []
                                          | Inr dockerIgnore \<Rightarrow>
                                              dockerignore_ReadAll env dockerIgnore) of
                                      Inl err \<Rightarrow> Inl err
                                    | Inr excludes \<Rightarrow>
                                        let keepThem1 = fst (fileutils_Matches env ''.dockerignore'' excludes);
                                            keepThem2 = fst (fileutils_Matches env dockerfileName excludes);
                                            includes =
                                              (if keepThem1 \<or> keepThem2
                                               then includes @ [''.dockerignore'', dockerfileName]
                                               else includes)
                                        in (case builder_ValidateContextDirectory env contextDirectory excludes of
                                              Some err \<Rightarrow>
                                                Inl (FmtErrorf
                                                  (''Error checking context is accessible: '' @ [CHR 0x27] @
                                                   Error_of err @ [CHR 0x27] @
                                                   ''. Please check permissions and try again.''))
                                            | None \<Rightarrow>
                                                archive_TarWithOptions env contextDirectory
                                                  \<lparr>Compression = Uncompressed,
                                                   ExcludePatterns = excludes,
                                                   IncludeFiles = includes\<rparr>)))))))"

text \<open>
  \<^verbatim>\<open>Build\<close> (lines 103-133). Line 122 defers \<^verbatim>\<open>response.Body.Close()\<close> before \<^verbatim>\<open>err\<close>
  is looked at: on a nil \<^verbatim>\<open>Body\<close> that is a method call on a nil interface, a run-time
  panic, and the context's deferred \<^verbatim>\<open>Close\<close> is all that still runs. Deferred calls run
  last in, first out, when the function returns.
\<close>

definition Build ::
  "env \<Rightarrow> dockerCmd \<Rightarrow> string \<Rightarrow> string \<Rightarrow> (string \<rightharpoonup> string option) \<Rightarrow>
     error option outcome \<times> event list" where
  "Build env docker contextDirectory imagePath args =
     (let dockerfile = defaultDockerfile
      in case CreateTar env contextDirectory dockerfile of
           Inl err \<Rightarrow> (Returns (Some err), [])
         | Inr buildCtx \<Rightarrow>
             let opts = \<lparr>Tags = [imagePath],
                         NoCache = noCache docker,
                         Remove = True,
                         ForceRemove = forceRm docker,
                         PullParent = pull docker,
                         Dockerfile = defaultDockerfile,
                         AuthConfigs = registryAuthMap docker,
                         BuildArgs = args\<rparr>;
                 (response, err) = ImageBuild (cli docker) buildCtx opts;
                 sent = [CallImageBuild buildCtx opts]
             in (case Body response of
                   None \<Rightarrow> (Panics, sent @ [CloseBuildContext])
                 | Some body \<Rightarrow>
                     (case err of
                        Some e \<Rightarrow> (Returns (Some e), sent @ [CloseBody, CloseBuildContext])
                      | None \<Rightarrow>
                          (case detectErrorMessage (Body response) of
                             Returns r \<Rightarrow> (Returns r, sent @ [CloseBody, CloseBuildContext])
                           | Panics \<Rightarrow> (Panics, sent @ [CloseBody, CloseBuildContext])
                           | Diverges \<Rightarrow> (Diverges, sent)))))"

text \<open>\<^verbatim>\<open>Pull\<close> (lines 135-150); the options struct is empty.\<close>

definition Pull :: "dockerCmd \<Rightarrow> string \<Rightarrow> error option outcome \<times> event list" where
  "Pull docker imagePath =
     (let opts = \<lparr>RegistryAuth = ''''\<rparr>;
          (resp, err) = ImagePull (cli docker) imagePath opts;
          sent = [CallImagePull imagePath opts];
          deferred = (if resp \<noteq> None then [CloseBody] else [])
      in case err of
           Some e \<Rightarrow> (Returns (Some e), sent @ deferred)
         | None \<Rightarrow>
             (case detectErrorMessage resp of
                Returns r \<Rightarrow> (Returns r, sent @ deferred)
              | Panics \<Rightarrow> (Panics, sent @ deferred)
              | Diverges \<Rightarrow> (Diverges, sent)))"

text \<open>\<^verbatim>\<open>Push\<close> (lines 152-168).\<close>

definition Push :: "dockerCmd \<Rightarrow> string \<Rightarrow> error option outcome \<times> event list" where
  "Push docker imagePath =
     (let opts = \<lparr>RegistryAuth = registryAuthString docker\<rparr>;
          (resp, err) = ImagePush (cli docker) imagePath opts;
          sent = [CallImagePush imagePath opts];
          deferred = (if resp \<noteq> None then [CloseBody] else [])
      in case err of
           Some e \<Rightarrow> (Returns (Some e), sent @ deferred)
         | None \<Rightarrow>
             (case detectErrorMessage resp of
                Returns r \<Rightarrow> (Returns r, sent @ deferred)
              | Panics \<Rightarrow> (Panics, sent @ deferred)
              | Diverges \<Rightarrow> (Diverges, sent)))"

text \<open>
  \<^verbatim>\<open>List\<close> (lines 170-197). The filter map is given as the pairs its \<^verbatim>\<open>range\<close> loop
  visits, in the order it visits them.
\<close>

definition List ::
  "dockerCmd \<Rightarrow> (string \<times> string) list \<Rightarrow> (error + ImageSummary list) outcome \<times> event list" where
  "List docker fltr =
     (let args = foldl (\<lambda>args (k, v). Add args k v) NewArgs fltr;
          opts = \<lparr>Filters = args\<rparr>;
          (imageSummaryList, err) = ImageList (cli docker) opts;
          sent = [CallImageList opts]
      in case err of
           Some e \<Rightarrow> (Returns (Inl e), sent)
         | None \<Rightarrow>
             (Returns (Inr (map (\<lambda>summary.
                  \<lparr>Containers = types_Containers summary,
                   Created = types_Created summary,
                   ID = types_ID summary,
                   Labels = types_Labels summary,
                   ParentID = types_ParentID summary,
                   RepoDigests = types_RepoDigests summary,
                   RepoTags = types_RepoTags summary,
                   SharedSize = types_SharedSize summary,
                   Size = types_Size summary,
                   VirtualSize = types_VirtualSize summary\<rparr>) imageSummaryList)), sent))"

text \<open>\<^verbatim>\<open>Tag\<close> (lines 198-204) and \<^verbatim>\<open>Rmi\<close> (lines 205-211).\<close>

definition Tag :: "dockerCmd \<Rightarrow> string \<Rightarrow> string \<Rightarrow> error option outcome \<times> event list" where
  "Tag docker imagePath newImagePath =
     (let err = ImageTag (cli docker) imagePath newImagePath;
          sent = [CallImageTag imagePath newImagePath]
      in case err of
           Some e \<Rightarrow> (Returns (Some e), sent)
         | None \<Rightarrow> (Returns None, sent))"

definition Rmi :: "dockerCmd \<Rightarrow> string \<Rightarrow> error option outcome \<times> event list" where
  "Rmi docker imagePath =
     (let err = ImageRemove (cli docker) imagePath;
          sent = [CallImageRemove imagePath]
      in case err of
           Some e \<Rightarrow> (Returns (Some e), sent)
         | None \<Rightarrow> (Returns None, sent))"

section \<open>Sample inputs\<close>

text \<open>
  Concrete messages, engines and machines on which the theorems below are run.
\<close>

definition progress_msg :: JSONMessage where
  "progress_msg = \<lparr>Stream = ''Step 1/2'', Status = '''', Error = None, ErrorMessage = ''''\<rparr>"

definition error_msg :: JSONMessage where
  "error_msg =
     \<lparr>Stream = '''', Status = '''',
      Error = Some \<lparr>Code = 1, Message = ''no space left''\<rparr>, ErrorMessage = ''no space left''\<rparr>"

definition errorMessage_msg :: JSONMessage where
  "errorMessage_msg = \<lparr>Stream = '''', Status = '''', Error = None, ErrorMessage = ''denied''\<rparr>"

text \<open>An engine that answers every request, and one that refuses every request.\<close>

definition ubuntu_summary :: types_ImageSummary where
  "ubuntu_summary =
     \<lparr>types_Containers = -1, types_Created = 1500000000, types_ID = ''sha256:0458a4468cbc'',
      types_Labels = [''maintainer'' \<mapsto> ''ops''], types_ParentID = '''',
      types_RepoDigests = [], types_RepoTags = [''ubuntu:16.04''],
      types_SharedSize = -1, types_Size = 111687776, types_VirtualSize = 111687776\<rparr>"

definition busybox_summary :: types_ImageSummary where
  "busybox_summary =
     \<lparr>types_Containers = 0, types_Created = 0, types_ID = ''sha256:511136ea3c5a'',
      types_Labels = Map.empty, types_ParentID = '''',
      types_RepoDigests = [], types_RepoTags = [''busybox:latest''],
      types_SharedSize = 0, types_Size = 0, types_VirtualSize = 0\<rparr>"

definition good_engine :: Client where
  "good_engine =
     \<lparr>ImageBuild = (\<lambda>buildContext options.
        (\<lparr>Body = Some (Decoded progress_msg (Failed EOF))\<rparr>, None)),
      ImagePull = (\<lambda>ref options. (Some (Decoded progress_msg (Failed EOF)), None)),
      ImagePush = (\<lambda>ref options. (Some (Decoded progress_msg (Failed EOF)), None)),
      ImageList = (\<lambda>options. ([ubuntu_summary, busybox_summary], None)),
      ImageTag = (\<lambda>image ref. None),
      ImageRemove = (\<lambda>image. None)\<rparr>"

definition refused :: error where
  "refused = LibError ''dial tcp 127.0.0.1:2376: connection refused''"

definition down_engine :: Client where
  "down_engine =
     \<lparr>ImageBuild = (\<lambda>buildContext options. (\<lparr>Body = None\<rparr>, Some refused)),
      ImagePull = (\<lambda>ref options. (None, Some refused)),
      ImagePush = (\<lambda>ref options. (None, Some refused)),
      ImageList = (\<lambda>options. ([], Some refused)),
      ImageTag = (\<lambda>image ref. Some refused),
      ImageRemove = (\<lambda>image. Some refused)\<rparr>"

text \<open>
  A machine whose files are the given paths with their contents. Paths are joined with a
  slash, a relative path is taken from \<^verbatim>\<open>/work\<close>, an ignore file holds one pattern, and
  a pattern matches the name equal to it. The stand-ins for \<^verbatim>\<open>json.Marshal\<close> and the
  base64 encoder only need to be functions.
\<close>

definition machine :: "Client \<Rightarrow> (string \<times> string) list \<Rightarrow> env" where
  "machine engine files =
     \<lparr>client_NewClient = (\<lambda>host version. Inr engine),
      json_Marshal = (\<lambda>auth. (Username auth @ '':'' @ Password auth, None)),
      base64_URLEncoding_EncodeToString = (\<lambda>bytes. ''b64-'' @ bytes),
      filepath_Join = (\<lambda>a b. if b = [] then a else a @ ''/'' @ b),
      filepath_Abs = (\<lambda>p. Inr (if take 1 p = ''/'' then p else ''/work/'' @ p)),
      filepath_Rel = (\<lambda>base targ.
        if take (length base + 1) targ = base @ ''/'' then Inr (drop (length base + 1) targ)
        else Inl (LibError ''Rel: cannot make the path relative'')),
      path_Join = (\<lambda>a b. if b = [] then a else a @ ''/'' @ b),
      os_Lstat = (\<lambda>p. case map_of files p of
                         Some content \<Rightarrow> None
                       | None \<Rightarrow> Some (NotExist (''lstat '' @ p @ '': no such file or directory''))),
      os_Open = (\<lambda>p. case map_of files p of
                        Some content \<Rightarrow> Inr content
                      | None \<Rightarrow> Inl (NotExist (''open '' @ p @ '': no such file or directory''))),
      dockerignore_ReadAll = (\<lambda>content. Inr (if content = [] then [] else [content])),
      fileutils_Matches = (\<lambda>name patterns. (name \<in> set patterns, None)),
      builder_ValidateContextDirectory = (\<lambda>dir excludes. None),
      archive_CanonicalTarNameForPath = (\<lambda>p. (p, None)),
      archive_TarWithOptions = (\<lambda>dir options.
        Inr (''tar '' @ dir @ '' -T'' @ concat (map (\<lambda>f. '' '' @ f) (IncludeFiles options))))\<rparr>"

definition sample_cfg :: Configs where
  "sample_cfg =
     \<lparr>Host = ''tcp://127.0.0.1:2376'', Registry = ''127.0.0.1'', User = ''alice'', Passwd = ''s3cret''\<rparr>"

text \<open>The client \<^verbatim>\<open>NewClient\<close> returns for \<open>sample_cfg\<close> on an engine.\<close>

definition sample_docker :: "Client \<Rightarrow> dockerCmd" where
  "sample_docker engine =
     \<lparr>cli = engine,
      dockerHost = ''tcp://127.0.0.1:2376'',
      registry = ''127.0.0.1'',
      registryAuthString = ''b64-alice:s3cret'',
      registryAuthMap = [''127.0.0.1'' \<mapsto> \<lparr>Username = ''alice'', Password = ''s3cret''\<rparr>],
      noCache = True,
      forceRm = True,
      pull = True\<rparr>"

text \<open>An engine whose pull answer breaks off in the middle of a JSON value.\<close>

definition garbled_engine :: Client where
  "garbled_engine =
     good_engine\<lparr>ImagePull := (\<lambda>ref options.
       (Some (Decoded progress_msg (Failed (LibError ''unexpected EOF''))), None))\<rparr>"

text \<open>A machine on which the ignore file cannot be opened, for a reason other than absence.\<close>

definition locked_machine :: env where
  "locked_machine =
     (machine good_engine [(''/ctx/Dockerfile'', ''FROM scratch'')])
       \<lparr>os_Open := (\<lambda>p. Inl (LibError (''open '' @ p @ '': permission denied'')))\<rparr>"

section \<open>Properties\<close>

subsection \<open>Scanning a stream\<close>

lemma decodeLoop_Failed:
  "decodeLoop (Failed err) = (if err = EOF then Some None else Some (Some err))"
  by (subst decodeLoop.simps) simp

lemma decodeLoop_Decoded:
  "decodeLoop (Decoded jm rest) =
     (case embedded_error jm of Some e \<Rightarrow> Some (Some e) | None \<Rightarrow> decodeLoop rest)"
  by (subst decodeLoop.simps) (simp add: embedded_error_def split: option.splits)

lemma decodeLoop_feed:
  "\<forall>m \<in> set ms. embedded_error m = None \<Longrightarrow> decodeLoop (feed ms r) = decodeLoop r"
  by (induction ms) (simp_all add: decodeLoop_Decoded)

lemma decodeLoop_nil_feed_aux:
  "decodeLoop r = Some y \<Longrightarrow>
     y = None \<longrightarrow> (\<exists>ms. r = feed ms (Failed EOF) \<and> (\<forall>m \<in> set ms. embedded_error m = None))"
proof (induction rule: decodeLoop.raw_induct[rotated 1, consumes 1])
  case (1 loop dec res)
  show ?case
  proof
    assume nil: "res = None"
    show "\<exists>ms. dec = feed ms (Failed EOF) \<and> (\<forall>m \<in> set ms. embedded_error m = None)"
    proof (cases dec)
      case (Failed err)
      with 1(2) nil have "err = EOF" by (simp split: if_splits)
      with Failed have "dec = feed [] (Failed EOF)" by simp
      then show ?thesis by (metis empty_iff list.set(1))
    next
      case (Decoded jm rest)
      with 1(2) nil have clean: "embedded_error jm = None" and rec: "loop rest = Some None"
        by (auto simp: embedded_error_def split: option.splits if_splits)
      from 1(1)[OF rec] obtain ms where
        ms: "rest = feed ms (Failed EOF)" "\<forall>m \<in> set ms. embedded_error m = None"
        by blast
      from Decoded ms(1) have "dec = feed (jm # ms) (Failed EOF)" by simp
      moreover from clean ms(2) have "\<forall>m \<in> set (jm # ms). embedded_error m = None" by simp
      ultimately show ?thesis by blast
    qed
  qed
qed

lemma decodeLoop_nil_feed:
  "decodeLoop r = Some None \<Longrightarrow>
     \<exists>ms. r = feed ms (Failed EOF) \<and> (\<forall>m \<in> set ms. embedded_error m = None)"
  using decodeLoop_nil_feed_aux by blast

lemma decodeLoop_nil_iff:
  "decodeLoop r = Some None \<longleftrightarrow>
     (\<exists>ms. r = feed ms (Failed EOF) \<and> (\<forall>m \<in> set ms. embedded_error m = None))"
  using decodeLoop_nil_feed decodeLoop_feed decodeLoop_Failed by fastforce

text \<open>
  Claim C1. For every response stream, \<^verbatim>\<open>detectErrorMessage\<close> decodes the messages in
  order and returns the first embedded error it meets: the \<^verbatim>\<open>Error\<close> object of the
  message if it has one, otherwise an error built from its non-empty \<^verbatim>\<open>ErrorMessage\<close>.
  It returns nil exactly when the decoder reaches the end of the stream after messages
  none of which carries an embedded error.
\<close>

theorem detectErrorMessage_first_embedded_error:
  "(detectErrorMessage (Some r) = Returns None \<longleftrightarrow>
      (\<exists>ms. r = feed ms (Failed EOF) \<and> (\<forall>m \<in> set ms. embedded_error m = None)))
   \<and> ((\<forall>m \<in> set ms. embedded_error m = None) \<and> embedded_error jm = Some e \<longrightarrow>
        detectErrorMessage (Some (feed ms (Decoded jm rest))) = Returns (Some e))"
proof
  have "detectErrorMessage (Some r) = Returns None \<longleftrightarrow> decodeLoop r = Some None"
    by (simp add: detectErrorMessage_def split: option.splits)
  then show "detectErrorMessage (Some r) = Returns None \<longleftrightarrow>
      (\<exists>ms. r = feed ms (Failed EOF) \<and> (\<forall>m \<in> set ms. embedded_error m = None))"
    by (simp add: decodeLoop_nil_iff)
next
  show "(\<forall>m \<in> set ms. embedded_error m = None) \<and> embedded_error jm = Some e \<longrightarrow>
        detectErrorMessage (Some (feed ms (Decoded jm rest))) = Returns (Some e)"
    by (simp add: detectErrorMessage_def decodeLoop_feed decodeLoop_Decoded)
qed

theorem detectErrorMessage_first_embedded_error_witness:
  "detectErrorMessage (Some (Decoded progress_msg (Failed EOF))) = Returns None
   \<and> detectErrorMessage
        (Some (Decoded progress_msg (Decoded errorMessage_msg (Decoded error_msg (Failed EOF)))))
       = Returns (Some (ErrorsNew ''denied''))"
proof
  have "\<exists>ms. Decoded progress_msg (Failed EOF) = feed ms (Failed EOF)
          \<and> (\<forall>m \<in> set ms. embedded_error m = None)"
    by (rule exI[of _ "[progress_msg]"]) (simp add: embedded_error_def progress_msg_def)
  with detectErrorMessage_first_embedded_error[of "Decoded progress_msg (Failed EOF)"]
  show "detectErrorMessage (Some (Decoded progress_msg (Failed EOF))) = Returns None"
    by blast
next
  show "detectErrorMessage
          (Some (Decoded progress_msg (Decoded errorMessage_msg (Decoded error_msg (Failed EOF)))))
        = Returns (Some (ErrorsNew ''denied''))"
    using detectErrorMessage_first_embedded_error
            [of _ "[progress_msg]" errorMessage_msg "ErrorsNew ''denied''"
                "Decoded error_msg (Failed EOF)"]
    by (simp add: embedded_error_def progress_msg_def errorMessage_msg_def)
qed

subsection \<open>What the operations send to the engine\<close>

lemma NewClient_sample: "NewClient (machine engine files) sample_cfg = Inr (sample_docker engine)"
  by (simp add: NewClient_def machine_def sample_cfg_def sample_docker_def)

lemma Build_calls:
  "calls (snd (Build env docker contextDirectory imagePath args)) =
     (case CreateTar env contextDirectory defaultDockerfile of
        Inl err \<Rightarrow> []
      | Inr buildCtx \<Rightarrow>
          [CallImageBuild buildCtx
             \<lparr>Tags = [imagePath], NoCache = noCache docker, Remove = True,
              ForceRemove = forceRm docker, PullParent = pull docker,
              Dockerfile = defaultDockerfile, AuthConfigs = registryAuthMap docker,
              BuildArgs = args\<rparr>])"
  by (simp add: Build_def calls_def Let_def split: sum.splits prod.splits option.splits outcome.splits)

lemma Pull_calls:
  "calls (snd (Pull docker imagePath)) = [CallImagePull imagePath \<lparr>RegistryAuth = ''''\<rparr>]"
  by (simp add: Pull_def calls_def Let_def split: prod.splits option.splits outcome.splits)

lemma Push_calls:
  "calls (snd (Push docker imagePath)) =
     [CallImagePush imagePath \<lparr>RegistryAuth = registryAuthString docker\<rparr>]"
  by (simp add: Push_def calls_def Let_def split: prod.splits option.splits outcome.splits)

lemma NewClient_fields:
  "NewClient env cfg = Inr docker \<Longrightarrow>
     noCache docker \<and> forceRm docker \<and> pull docker \<and>
     registryAuthString docker =
       base64_URLEncoding_EncodeToString env
         (fst (json_Marshal env \<lparr>Username = User cfg, Password = Passwd cfg\<rparr>))"
  by (auto simp: NewClient_def Let_def split: sum.splits)

text \<open>
  Claim C8. Every client returned by \<^verbatim>\<open>NewClient\<close> issues its build request with fixed
  options, whatever the configuration and the arguments: \<^verbatim>\<open>NoCache\<close>, \<^verbatim>\<open>Remove\<close>,
  \<^verbatim>\<open>ForceRemove\<close> and \<^verbatim>\<open>PullParent\<close> are true, the Dockerfile name sent is
  \<^verbatim>\<open>Dockerfile\<close>, and the image path given to \<^verbatim>\<open>Build\<close> is the request's single tag.
  The request is sent when the build context could be made; otherwise nothing is sent.
\<close>

theorem Build_fixed_options:
  assumes "NewClient env cfg = Inr docker"
  shows "case CreateTar env' contextDirectory ''Dockerfile'' of
           Inl err \<Rightarrow> snd (Build env' docker contextDirectory imagePath args) = []
         | Inr buildCtx \<Rightarrow>
             (\<exists>opts. calls (snd (Build env' docker contextDirectory imagePath args)) =
                       [CallImageBuild buildCtx opts]
                \<and> NoCache opts \<and> Remove opts \<and> ForceRemove opts \<and> PullParent opts
                \<and> Dockerfile opts = ''Dockerfile'' \<and> Tags opts = [imagePath])"
proof (cases "CreateTar env' contextDirectory ''Dockerfile''")
  case (Inl err)
  then show ?thesis by (simp add: Build_def defaultDockerfile_def)
next
  case (Inr buildCtx)
  with NewClient_fields[OF assms] show ?thesis
    using Build_calls[of env' docker contextDirectory imagePath args]
    by (simp add: defaultDockerfile_def)
qed

theorem Build_fixed_options_witness:
  "\<exists>opts. calls (snd (Build (machine good_engine [(''/ctx/Dockerfile'', ''FROM scratch'')])
                        (sample_docker good_engine) ''/ctx'' ''build-test:master'' Map.empty)) =
            [CallImageBuild ''tar /ctx -T .'' opts]
         \<and> NoCache opts \<and> Remove opts \<and> ForceRemove opts \<and> PullParent opts
         \<and> Dockerfile opts = ''Dockerfile'' \<and> Tags opts = [''build-test:master'']"
proof -
  have "CreateTar (machine good_engine [(''/ctx/Dockerfile'', ''FROM scratch'')]) ''/ctx'' ''Dockerfile''
          = Inr ''tar /ctx -T .''"
    by code_simp
  then show ?thesis
    using Build_fixed_options[OF NewClient_sample[of good_engine "[]"],
            where env' = "machine good_engine [(''/ctx/Dockerfile'', ''FROM scratch'')]"
              and contextDirectory = "''/ctx''" and imagePath = "''build-test:master''"
              and args = Map.empty]
    by simp
qed

text \<open>
  Claim C9. \<^verbatim>\<open>Pull\<close> never sends the registry credentials configured in
  \<^verbatim>\<open>NewClient\<close>: its options carry an empty \<^verbatim>\<open>RegistryAuth\<close>. \<^verbatim>\<open>Push\<close> always sends
  the base64 encoding of the marshalled user and password.
\<close>

theorem registry_auth_on_Push_only:
  assumes "NewClient env cfg = Inr docker"
  shows "calls (snd (Pull docker imagePath)) = [CallImagePull imagePath \<lparr>RegistryAuth = ''''\<rparr>]
       \<and> calls (snd (Push docker imagePath)) =
           [CallImagePush imagePath
              \<lparr>RegistryAuth = base64_URLEncoding_EncodeToString env
                 (fst (json_Marshal env \<lparr>Username = User cfg, Password = Passwd cfg\<rparr>))\<rparr>]"
  using NewClient_fields[OF assms] by (simp add: Pull_calls Push_calls)

theorem registry_auth_on_Push_only_witness:
  "calls (snd (Pull (sample_docker good_engine) ''ubuntu:16.04'')) =
     [CallImagePull ''ubuntu:16.04'' \<lparr>RegistryAuth = ''''\<rparr>]
   \<and> calls (snd (Push (sample_docker good_engine) ''127.0.0.1/public/build-test:master'')) =
     [CallImagePush ''127.0.0.1/public/build-test:master'' \<lparr>RegistryAuth = ''b64-alice:s3cret''\<rparr>]"
proof -
  have "base64_URLEncoding_EncodeToString (machine good_engine [])
         (fst (json_Marshal (machine good_engine [])
            \<lparr>Username = User sample_cfg, Password = Passwd sample_cfg\<rparr>)) = ''b64-alice:s3cret''"
    by (simp add: machine_def sample_cfg_def)
  then show ?thesis
    using registry_auth_on_Push_only[OF NewClient_sample[of good_engine "[]"], where imagePath = "''ubuntu:16.04''"]
          registry_auth_on_Push_only[OF NewClient_sample[of good_engine "[]"], where imagePath = "''127.0.0.1/public/build-test:master''"]
    by simp
qed

subsection \<open>Listing images\<close>

lemma Add_pairs:
  "(\<exists>vs. Add args name v k = Some vs \<and> w \<in> vs) \<longleftrightarrow>
     (\<exists>vs. args k = Some vs \<and> w \<in> vs) \<or> (k = name \<and> w = v)"
  by (auto simp: Add_def split: option.splits)

lemma foldl_Add_pairs:
  "(\<exists>vs. foldl (\<lambda>args (k, v). Add args k v) args fltr k = Some vs \<and> w \<in> vs) \<longleftrightarrow>
     (\<exists>vs. args k = Some vs \<and> w \<in> vs) \<or> (k, w) \<in> set fltr"
proof (induction fltr arbitrary: args)
  case Nil
  then show ?case by simp
next
  case (Cons p fltr)
  obtain name v where p: "p = (name, v)" by (cases p)
  show ?case
    unfolding p by (simp add: Cons.IH Add_pairs)
qed

lemma dom_foldl_Add:
  "dom (foldl (\<lambda>args (k, v). Add args k v) args fltr) = dom args \<union> fst ` set fltr"
proof (induction fltr arbitrary: args)
  case Nil
  then show ?case by simp
next
  case (Cons p fltr)
  obtain name v where p: "p = (name, v)" by (cases p)
  have "dom (Add args name v) = insert name (dom args)"
    by (auto simp: Add_def split: option.splits)
  then show ?case
    unfolding p by (simp add: Cons.IH)
qed

text \<open>
  Claim C7. \<^verbatim>\<open>List\<close> forwards every key/value pair of the caller's filter map into the
  engine's filter arguments, and \<^verbatim>\<open>Build\<close> passes the build-argument map on unchanged
  as \<^verbatim>\<open>BuildArgs\<close>: neither adds, drops or rewrites an entry. The filter arguments
  hold exactly the names and the pairs of the filter.
\<close>

theorem filters_and_build_args_forwarded:
  "(\<exists>opts. snd (List docker fltr) = [CallImageList opts]
       \<and> dom (Filters opts) = fst ` set fltr
       \<and> (\<forall>k v. (\<exists>vs. Filters opts k = Some vs \<and> v \<in> vs) \<longleftrightarrow> (k, v) \<in> set fltr))
   \<and> (case CreateTar env contextDirectory ''Dockerfile'' of
         Inl err \<Rightarrow> snd (Build env docker' contextDirectory imagePath args) = []
       | Inr buildCtx \<Rightarrow>
           (\<exists>opts. calls (snd (Build env docker' contextDirectory imagePath args)) =
                     [CallImageBuild buildCtx opts]
              \<and> BuildArgs opts = args))"
proof
  have "\<forall>k v. (\<exists>vs. foldl (\<lambda>args (k, v). Add args k v) NewArgs fltr k = Some vs \<and> v \<in> vs)
           \<longleftrightarrow> (k, v) \<in> set fltr"
    by (simp add: foldl_Add_pairs NewArgs_def)
  moreover have "dom (foldl (\<lambda>args (k, v). Add args k v) NewArgs fltr) = fst ` set fltr"
    by (simp add: dom_foldl_Add NewArgs_def)
  ultimately show "\<exists>opts. snd (List docker fltr) = [CallImageList opts]
       \<and> dom (Filters opts) = fst ` set fltr
       \<and> (\<forall>k v. (\<exists>vs. Filters opts k = Some vs \<and> v \<in> vs) \<longleftrightarrow> (k, v) \<in> set fltr)"
    by (simp add: List_def Let_def split: prod.splits option.splits)
next
  show "case CreateTar env contextDirectory ''Dockerfile'' of
         Inl err \<Rightarrow> snd (Build env docker' contextDirectory imagePath args) = []
       | Inr buildCtx \<Rightarrow>
           (\<exists>opts. calls (snd (Build env docker' contextDirectory imagePath args)) =
                     [CallImageBuild buildCtx opts]
              \<and> BuildArgs opts = args)"
  proof (cases "CreateTar env contextDirectory ''Dockerfile''")
    case (Inl err)
    then show ?thesis by (simp add: Build_def defaultDockerfile_def)
  next
    case (Inr buildCtx)
    then show ?thesis
      using Build_calls[of env docker' contextDirectory imagePath args]
      by (simp add: defaultDockerfile_def)
  qed
qed

theorem filters_and_build_args_forwarded_witness:
  "(\<exists>opts. snd (List (sample_docker good_engine) [(''dangling'', ''false''), (''label'', ''stage=test'')])
              = [CallImageList opts]
       \<and> Filters opts ''dangling'' = Some {''false''}
       \<and> Filters opts ''label'' = Some {''stage=test''}
       \<and> Filters opts ''reference'' = None)
   \<and> (\<exists>opts. calls (snd (Build (machine good_engine [(''/ctx/Dockerfile'', ''FROM scratch'')])
                        (sample_docker good_engine) ''/ctx'' ''build-test:master''
                        [''VERSION'' \<mapsto> Some ''1.2'', ''DEBUG'' \<mapsto> None])) =
            [CallImageBuild ''tar /ctx -T .'' opts]
         \<and> BuildArgs opts ''VERSION'' = Some (Some ''1.2'') \<and> BuildArgs opts ''DEBUG'' = Some None
         \<and> BuildArgs opts ''HOME'' = None)"
proof -
  let ?f = "[(''dangling'', ''false''), (''label'', ''stage=test'')]"
  let ?args = "[''VERSION'' \<mapsto> Some ''1.2'', ''DEBUG'' \<mapsto> None]"
  let ?env = "machine good_engine [(''/ctx/Dockerfile'', ''FROM scratch'')]"
  note fwd = filters_and_build_args_forwarded
               [where docker = "sample_docker good_engine" and fltr = ?f and env = ?env
                  and contextDirectory = "''/ctx''" and docker' = "sample_docker good_engine"
                  and imagePath = "''build-test:master''" and args = ?args]
  have tar: "CreateTar ?env ''/ctx'' ''Dockerfile'' = Inr ''tar /ctx -T .''"
    by code_simp
  from fwd obtain opts where
    o: "snd (List (sample_docker good_engine) ?f) = [CallImageList opts]"
       "dom (Filters opts) = fst ` set ?f"
       "\<forall>k v. (\<exists>vs. Filters opts k = Some vs \<and> v \<in> vs) \<longleftrightarrow> (k, v) \<in> set ?f"
    by blast
  from o(2) have "''dangling'' \<in> dom (Filters opts)" "''label'' \<in> dom (Filters opts)"
    by simp_all
  then obtain vs ws where
    vs: "Filters opts ''dangling'' = Some vs" and ws: "Filters opts ''label'' = Some ws"
    by blast
  from o(3) have "\<forall>v. (\<exists>vs'. Filters opts ''dangling'' = Some vs' \<and> v \<in> vs')
                     \<longleftrightarrow> (''dangling'', v) \<in> set ?f"
    by blast
  with vs have "\<forall>v. v \<in> vs \<longleftrightarrow> v = ''false''" by simp
  then have "vs = {''false''}" by blast
  moreover from o(3) have "\<forall>v. (\<exists>ws'. Filters opts ''label'' = Some ws' \<and> v \<in> ws')
                     \<longleftrightarrow> (''label'', v) \<in> set ?f"
    by blast
  with ws have "\<forall>v. v \<in> ws \<longleftrightarrow> v = ''stage=test''" by simp
  then have "ws = {''stage=test''}" by blast
  moreover have "Filters opts ''reference'' = None"
  proof -
    from o(2) have "''reference'' \<notin> dom (Filters opts)" by simp
    then show ?thesis by (simp add: domIff)
  qed
  ultimately have list: "\<exists>opts. snd (List (sample_docker good_engine) ?f) = [CallImageList opts]
       \<and> Filters opts ''dangling'' = Some {''false''}
       \<and> Filters opts ''label'' = Some {''stage=test''}
       \<and> Filters opts ''reference'' = None"
    using o(1) vs ws by blast
  from fwd tar have build: "\<exists>opts. calls (snd (Build ?env (sample_docker good_engine) ''/ctx''
                        ''build-test:master'' ?args)) = [CallImageBuild ''tar /ctx -T .'' opts]
         \<and> BuildArgs opts = ?args"
    by simp
  then have "\<exists>opts. calls (snd (Build ?env (sample_docker good_engine) ''/ctx''
                        ''build-test:master'' ?args)) = [CallImageBuild ''tar /ctx -T .'' opts]
         \<and> BuildArgs opts ''VERSION'' = Some (Some ''1.2'') \<and> BuildArgs opts ''DEBUG'' = Some None
         \<and> BuildArgs opts ''HOME'' = None"
    by auto
  with list show ?thesis by blast
qed

text \<open>
  Claim C6. For every successful \<^verbatim>\<open>List\<close> call the result has one \<^verbatim>\<open>ImageSummary\<close>
  per summary of the engine's answer, in the same order, and each of the ten fields of
  each record equals the engine's field.
\<close>

theorem List_copies_fields:
  assumes "fst (List docker fltr) = Returns (Inr images)"
  shows "\<exists>opts summaries.
           snd (List docker fltr) = [CallImageList opts]
         \<and> ImageList (cli docker) opts = (summaries, None)
         \<and> length images = length summaries
         \<and> (\<forall>i < length summaries.
               Containers (images ! i) = types_Containers (summaries ! i)
             \<and> Created (images ! i) = types_Created (summaries ! i)
             \<and> ID (images ! i) = types_ID (summaries ! i)
             \<and> Labels (images ! i) = types_Labels (summaries ! i)
             \<and> ParentID (images ! i) = types_ParentID (summaries ! i)
             \<and> RepoDigests (images ! i) = types_RepoDigests (summaries ! i)
             \<and> RepoTags (images ! i) = types_RepoTags (summaries ! i)
             \<and> SharedSize (images ! i) = types_SharedSize (summaries ! i)
             \<and> Size (images ! i) = types_Size (summaries ! i)
             \<and> VirtualSize (images ! i) = types_VirtualSize (summaries ! i))"
proof -
  let ?opts = "\<lparr>Filters = foldl (\<lambda>args (k, v). Add args k v) NewArgs fltr\<rparr>"
  obtain summaries err where r: "ImageList (cli docker) ?opts = (summaries, err)"
    by (cases "ImageList (cli docker) ?opts")
  with assms have err: "err = None"
    by (simp add: List_def Let_def split: option.splits)
  with assms r have images: "images = map (\<lambda>summary.
                  \<lparr>Containers = types_Containers summary,
                   Created = types_Created summary,
                   ID = types_ID summary,
                   Labels = types_Labels summary,
                   ParentID = types_ParentID summary,
                   RepoDigests = types_RepoDigests summary,
                   RepoTags = types_RepoTags summary,
                   SharedSize = types_SharedSize summary,
                   Size = types_Size summary,
                   VirtualSize = types_VirtualSize summary\<rparr>) summaries"
    by (simp add: List_def Let_def)
  have log: "snd (List docker fltr) = [CallImageList ?opts]"
    by (simp add: List_def Let_def split: prod.splits option.splits)
  show ?thesis
    apply (rule exI[of _ ?opts], rule exI[of _ summaries])
    using r err log by (simp add: images)
qed

theorem List_copies_fields_witness:
  "\<exists>a b. fst (List (sample_docker good_engine) [(''dangling'', ''false'')]) = Returns (Inr [a, b])
     \<and> ID a = ''sha256:0458a4468cbc'' \<and> RepoTags a = [''ubuntu:16.04''] \<and> Size a = 111687776
     \<and> Containers a = -1 \<and> Labels a ''maintainer'' = Some ''ops''
     \<and> ID b = ''sha256:511136ea3c5a'' \<and> RepoTags b = [''busybox:latest''] \<and> Size b = 0"
proof -
  obtain images where r: "fst (List (sample_docker good_engine) [(''dangling'', ''false'')]) = Returns (Inr images)"
    by (simp add: List_def Let_def sample_docker_def good_engine_def)
  from List_copies_fields[OF r] obtain opts summaries where
    s: "ImageList (cli (sample_docker good_engine)) opts = (summaries, None)"
       "length images = length summaries"
       "\<forall>i < length summaries.
               Containers (images ! i) = types_Containers (summaries ! i)
             \<and> Created (images ! i) = types_Created (summaries ! i)
             \<and> ID (images ! i) = types_ID (summaries ! i)
             \<and> Labels (images ! i) = types_Labels (summaries ! i)
             \<and> ParentID (images ! i) = types_ParentID (summaries ! i)
             \<and> RepoDigests (images ! i) = types_RepoDigests (summaries ! i)
             \<and> RepoTags (images ! i) = types_RepoTags (summaries ! i)
             \<and> SharedSize (images ! i) = types_SharedSize (summaries ! i)
             \<and> Size (images ! i) = types_Size (summaries ! i)
             \<and> VirtualSize (images ! i) = types_VirtualSize (summaries ! i)"
    by blast
  from s(1) have summaries: "summaries = [ubuntu_summary, busybox_summary]"
    by (simp add: sample_docker_def good_engine_def)
  with s(2) obtain a b where ab: "images = [a, b]"
    by (cases images; cases "tl images"; cases "tl (tl images)") auto
  from s(3) summaries ab have a: "ID a = types_ID ubuntu_summary" "RepoTags a = types_RepoTags ubuntu_summary"
      "Size a = types_Size ubuntu_summary" "Containers a = types_Containers ubuntu_summary"
      "Labels a = types_Labels ubuntu_summary"
    by force+
  from s(3) summaries ab have b: "ID b = types_ID busybox_summary" "RepoTags b = types_RepoTags busybox_summary"
      "Size b = types_Size busybox_summary"
    by force+
  show ?thesis
    apply (rule exI[of _ a], rule exI[of _ b])
    using r ab a b by (simp add: ubuntu_summary_def busybox_summary_def)
qed

subsection \<open>Building the context archive\<close>

lemma CreateTar_located:
  assumes "filepath_Abs env contextDirectory = Inr a"
    and "dockerfilePath env contextDirectory a dockerfile = (orig, fn)"
    and "filepath_Abs env fn = Inr f"
    and "filepath_Rel env a f = Inr r"
    and "archive_CanonicalTarNameForPath env r = (c, None)"
    and "\<not> IsNotExist (os_Lstat env f)"
  shows "CreateTar env contextDirectory dockerfile =
     (case (case os_Open env (path_Join env contextDirectory ''.dockerignore'') of
              Inl err \<Rightarrow> if \<not> IsNotExist (Some err) then Inl err else Inr []
            | Inr dockerIgnore \<Rightarrow> dockerignore_ReadAll env dockerIgnore) of
        Inl err \<Rightarrow> Inl err
      | Inr excludes \<Rightarrow>
          (case builder_ValidateContextDirectory env contextDirectory excludes of
             Some err \<Rightarrow>
               Inl (FmtErrorf (''Error checking context is accessible: '' @ [CHR 0x27] @
                      Error_of err @ [CHR 0x27] @ ''. Please check permissions and try again.''))
           | None \<Rightarrow>
               archive_TarWithOptions env contextDirectory
                 \<lparr>Compression = Uncompressed,
                  ExcludePatterns = excludes,
                  IncludeFiles =
                    (if fst (fileutils_Matches env ''.dockerignore'' excludes)
                        \<or> fst (fileutils_Matches env c excludes)
                     then [''.'', ''.dockerignore'', c] else [''.''])\<rparr>))"
  using assms by (simp add: CreateTar_def Let_def split: sum.splits option.splits)

lemma CreateTar_missing:
  assumes "filepath_Abs env contextDirectory = Inr a"
    and "dockerfilePath env contextDirectory a dockerfile = (orig, fn)"
    and "filepath_Abs env fn = Inr f"
    and "filepath_Rel env a f = Inr r"
    and "archive_CanonicalTarNameForPath env r = (c, None)"
    and "IsNotExist (os_Lstat env f)"
  shows "CreateTar env contextDirectory dockerfile =
           Inl (FmtErrorf (''Cannot locate Dockerfile: '' @ orig))"
  using assms by (simp add: CreateTar_def)

lemma CreateTar_missing_error:
  assumes "filepath_Abs env contextDirectory = Inr a"
    and "dockerfilePath env contextDirectory a dockerfile = (orig, fn)"
    and "filepath_Abs env fn = Inr f"
    and "IsNotExist (os_Lstat env f)"
  shows "\<exists>e. CreateTar env contextDirectory dockerfile = Inl e"
  using assms by (simp add: CreateTar_def split: sum.splits prod.splits option.splits)

lemma dockerfilePath_named:
  "dockerfile \<noteq> '''' \<Longrightarrow>
     dockerfilePath env contextDirectory a dockerfile =
       (filepath_Join env contextDirectory dockerfile, filepath_Join env contextDirectory dockerfile)"
  by (simp add: dockerfilePath_def Let_def)

lemma ToLower_Dockerfile: "ToLower ''Dockerfile'' = ''dockerfile''"
  by code_simp

lemma dockerfilePath_default:
  "dockerfilePath env contextDirectory a '''' =
     (if IsNotExist (os_Lstat env (filepath_Join env a ''Dockerfile''))
         \<and> os_Lstat env (path_Join env a ''dockerfile'') = None
      then (''dockerfile'', path_Join env a ''dockerfile'')
      else (''Dockerfile'', filepath_Join env a ''Dockerfile''))"
  by (simp add: dockerfilePath_def defaultDockerfile_def ToLower_Dockerfile Let_def)

text \<open>
  Claim C5. For every context directory, \<^verbatim>\<open>CreateTar\<close> looks for the Dockerfile at the
  path joined to the context directory and returns the error
  \<^verbatim>\<open>Cannot locate Dockerfile\<close>, not an archive, when that file does not exist. With the
  empty string as \<^verbatim>\<open>dockerfile\<close> it falls back to the name \<^verbatim>\<open>Dockerfile\<close> and uses
  the lower-case \<^verbatim>\<open>dockerfile\<close> instead exactly when the former is absent and the latter
  exists. A missing file always gives an error; the error is the one named whenever the
  path computations between the two look-ups (\<^verbatim>\<open>filepath.Rel\<close> and the canonical tar
  name) succeed.
\<close>

theorem CreateTar_locates_Dockerfile:
  "(dockerfile \<noteq> '''' \<longrightarrow>
      dockerfilePath env contextDirectory a dockerfile =
        (filepath_Join env contextDirectory dockerfile,
         filepath_Join env contextDirectory dockerfile))
   \<and> dockerfilePath env contextDirectory a '''' =
        (if IsNotExist (os_Lstat env (filepath_Join env a ''Dockerfile''))
            \<and> os_Lstat env (path_Join env a ''dockerfile'') = None
         then (''dockerfile'', path_Join env a ''dockerfile'')
         else (''Dockerfile'', filepath_Join env a ''Dockerfile''))
   \<and> (filepath_Abs env contextDirectory = Inr a
        \<and> dockerfilePath env contextDirectory a dockerfile = (name, fn)
        \<and> filepath_Abs env fn = Inr f
        \<and> IsNotExist (os_Lstat env f) \<longrightarrow>
          (\<exists>e. CreateTar env contextDirectory dockerfile = Inl e)
        \<and> (filepath_Rel env a f = Inr r \<and> archive_CanonicalTarNameForPath env r = (c, None) \<longrightarrow>
              CreateTar env contextDirectory dockerfile =
                Inl (FmtErrorf (''Cannot locate Dockerfile: '' @ name))))"
  using dockerfilePath_named[of dockerfile env contextDirectory a]
        dockerfilePath_default[of env contextDirectory a]
        CreateTar_missing_error[of env contextDirectory a dockerfile name fn f]
        CreateTar_missing[of env contextDirectory a dockerfile name fn f r c]
  by blast

theorem CreateTar_locates_Dockerfile_witness:
  "CreateTar (machine good_engine []) ''ctx'' ''build/Dockerfile''
     = Inl (FmtErrorf ''Cannot locate Dockerfile: ctx/build/Dockerfile'')
   \<and> CreateTar (machine good_engine []) ''ctx'' ''''
     = Inl (FmtErrorf ''Cannot locate Dockerfile: Dockerfile'')
   \<and> dockerfilePath (machine good_engine [(''/work/ctx/dockerfile'', ''FROM scratch'')])
        ''ctx'' ''/work/ctx'' '''' = (''dockerfile'', ''/work/ctx/dockerfile'')
   \<and> dockerfilePath (machine good_engine [(''/work/ctx/dockerfile'', ''FROM scratch''),
                                            (''/work/ctx/Dockerfile'', ''FROM ubuntu'')])
        ''ctx'' ''/work/ctx'' '''' = (''Dockerfile'', ''/work/ctx/Dockerfile'')"
proof -
  let ?bare = "machine good_engine []"
  let ?lower = "machine good_engine [(''/work/ctx/dockerfile'', ''FROM scratch'')]"
  let ?both = "machine good_engine [(''/work/ctx/dockerfile'', ''FROM scratch''),
                                    (''/work/ctx/Dockerfile'', ''FROM ubuntu'')]"
  have named: "CreateTar ?bare ''ctx'' ''build/Dockerfile''
                 = Inl (FmtErrorf ''Cannot locate Dockerfile: ctx/build/Dockerfile'')"
    using CreateTar_locates_Dockerfile
            [where env = ?bare and contextDirectory = "''ctx''" and a = "''/work/ctx''"
               and dockerfile = "''build/Dockerfile''" and name = "''ctx/build/Dockerfile''"
               and fn = "''ctx/build/Dockerfile''" and f = "''/work/ctx/build/Dockerfile''"
               and r = "''build/Dockerfile''" and c = "''build/Dockerfile''"]
    by (simp add: machine_def)
  have default: "CreateTar ?bare ''ctx'' '''' = Inl (FmtErrorf ''Cannot locate Dockerfile: Dockerfile'')"
    using CreateTar_locates_Dockerfile
            [where env = ?bare and contextDirectory = "''ctx''" and a = "''/work/ctx''"
               and dockerfile = "''''" and name = "''Dockerfile''"
               and fn = "''/work/ctx/Dockerfile''" and f = "''/work/ctx/Dockerfile''"
               and r = "''Dockerfile''" and c = "''Dockerfile''"]
    by (simp add: machine_def)
  have lower: "dockerfilePath ?lower ''ctx'' ''/work/ctx'' '''' = (''dockerfile'', ''/work/ctx/dockerfile'')"
    using CreateTar_locates_Dockerfile
            [where env = ?lower and contextDirectory = "''ctx''" and a = "''/work/ctx''"]
    by (simp add: machine_def)
  have both: "dockerfilePath ?both ''ctx'' ''/work/ctx'' '''' = (''Dockerfile'', ''/work/ctx/Dockerfile'')"
    using CreateTar_locates_Dockerfile
            [where env = ?both and contextDirectory = "''ctx''" and a = "''/work/ctx''"]
    by (simp add: machine_def)
  from named default lower both show ?thesis by blast
qed

text \<open>
  Claim C10. A missing \<^verbatim>\<open>.dockerignore\<close> is not an error: \<^verbatim>\<open>CreateTar\<close> goes on with an
  empty exclusion list. Whenever the exclusion patterns match \<^verbatim>\<open>.dockerignore\<close> or the
  Dockerfile's name, both files are added to the archive's include list after \<^verbatim>\<open>.\<close>;
  otherwise the include list is \<^verbatim>\<open>.\<close> alone. Here the Dockerfile has been found and
  the context directory passes validation.
\<close>

theorem CreateTar_dockerignore:
  assumes "filepath_Abs env contextDirectory = Inr a"
    and "dockerfilePath env contextDirectory a dockerfile = (orig, fn)"
    and "filepath_Abs env fn = Inr f"
    and "filepath_Rel env a f = Inr dockerfileName"
    and "archive_CanonicalTarNameForPath env dockerfileName = (canonical, None)"
    and "\<not> IsNotExist (os_Lstat env f)"
    and "(os_Open env (path_Join env contextDirectory ''.dockerignore'') = Inl e
            \<and> IsNotExist (Some e) \<and> excludes = [])
         \<or> (os_Open env (path_Join env contextDirectory ''.dockerignore'') = Inr dockerIgnore
            \<and> dockerignore_ReadAll env dockerIgnore = Inr excludes)"
    and "builder_ValidateContextDirectory env contextDirectory excludes = None"
  shows "CreateTar env contextDirectory dockerfile =
           archive_TarWithOptions env contextDirectory
             \<lparr>Compression = Uncompressed,
              ExcludePatterns = excludes,
              IncludeFiles =
                (if fst (fileutils_Matches env ''.dockerignore'' excludes)
                    \<or> fst (fileutils_Matches env canonical excludes)
                 then [''.'', ''.dockerignore'', canonical] else [''.''])\<rparr>"
  using assms(7,8) CreateTar_located[OF assms(1-6)] by auto

theorem CreateTar_dockerignore_witness:
  "CreateTar (machine good_engine [(''/ctx/Dockerfile'', ''FROM scratch'')]) ''/ctx'' ''Dockerfile''
     = Inr ''tar /ctx -T .''
   \<and> CreateTar (machine good_engine [(''/ctx/Dockerfile'', ''FROM scratch''),
                                       (''/ctx/.dockerignore'', ''Dockerfile'')]) ''/ctx'' ''Dockerfile''
     = Inr ''tar /ctx -T . .dockerignore Dockerfile''"
proof
  let ?plain = "machine good_engine [(''/ctx/Dockerfile'', ''FROM scratch'')]"
  have path: "dockerfilePath ?plain ''/ctx'' ''/ctx'' ''Dockerfile'' = (''/ctx/Dockerfile'', ''/ctx/Dockerfile'')"
    by (simp add: dockerfilePath_named machine_def)
  show "CreateTar ?plain ''/ctx'' ''Dockerfile''
     = Inr ''tar /ctx -T .''"
    using CreateTar_dockerignore
            [where env = ?plain and contextDirectory = "''/ctx''" and a = "''/ctx''"
               and dockerfile = "''Dockerfile''" and orig = "''/ctx/Dockerfile''"
               and fn = "''/ctx/Dockerfile''" and f = "''/ctx/Dockerfile''"
               and dockerfileName = "''Dockerfile''" and canonical = "''Dockerfile''"
               and e = "NotExist ''open /ctx/.dockerignore: no such file or directory''"
               and excludes = "[]", OF _ path]
    by (simp add: machine_def)
next
  let ?ignoring = "machine good_engine [(''/ctx/Dockerfile'', ''FROM scratch''),
                                        (''/ctx/.dockerignore'', ''Dockerfile'')]"
  have path: "dockerfilePath ?ignoring ''/ctx'' ''/ctx'' ''Dockerfile'' = (''/ctx/Dockerfile'', ''/ctx/Dockerfile'')"
    by (simp add: dockerfilePath_named machine_def)
  show "CreateTar ?ignoring ''/ctx'' ''Dockerfile''
     = Inr ''tar /ctx -T . .dockerignore Dockerfile''"
    using CreateTar_dockerignore
            [where env = ?ignoring and contextDirectory = "''/ctx''" and a = "''/ctx''"
               and dockerfile = "''Dockerfile''" and orig = "''/ctx/Dockerfile''"
               and fn = "''/ctx/Dockerfile''" and f = "''/ctx/Dockerfile''"
               and dockerfileName = "''Dockerfile''" and canonical = "''Dockerfile''"
               and dockerIgnore = "''Dockerfile''"
               and excludes = "[''Dockerfile'']", OF _ path]
    by (simp add: machine_def)
qed

lemma CreateTar_plain_context:
  "CreateTar (machine engine [(''/ctx/Dockerfile'', ''FROM scratch'')]) ''/ctx'' ''Dockerfile''
     = Inr ''tar /ctx -T .''"
  by (simp add: CreateTar_def machine_def dockerfilePath_def Let_def)

lemma CreateTar_empty_context:
  "CreateTar (machine engine []) ''/ctx'' ''Dockerfile''
     = Inl (FmtErrorf ''Cannot locate Dockerfile: /ctx/Dockerfile'')"
  by (simp add: CreateTar_def machine_def dockerfilePath_def Let_def)

subsection \<open>Build, pull and push\<close>

lemma detectErrorMessage_nil_iff:
  "detectErrorMessage resp = Returns None \<longleftrightarrow>
     (\<exists>ms. resp = Some (feed ms (Failed EOF)) \<and> (\<forall>m \<in> set ms. embedded_error m = None))"
proof (cases resp)
  case None
  then show ?thesis by (simp add: detectErrorMessage_def)
next
  case (Some r)
  have "detectErrorMessage (Some r) = Returns None \<longleftrightarrow> decodeLoop r = Some None"
    by (simp add: detectErrorMessage_def split: option.splits)
  with Some show ?thesis by (simp add: decodeLoop_nil_iff)
qed

lemma Pull_nil_iff:
  "fst (Pull docker imagePath) = Returns None \<longleftrightarrow>
     (\<exists>resp. ImagePull (cli docker) imagePath \<lparr>RegistryAuth = ''''\<rparr> = (resp, None)
        \<and> detectErrorMessage resp = Returns None)"
  by (auto simp: Pull_def Let_def split: prod.splits option.splits outcome.splits)

lemma Push_nil_iff:
  "fst (Push docker imagePath) = Returns None \<longleftrightarrow>
     (\<exists>resp. ImagePush (cli docker) imagePath \<lparr>RegistryAuth = registryAuthString docker\<rparr>
               = (resp, None)
        \<and> detectErrorMessage resp = Returns None)"
  by (auto simp: Push_def Let_def split: prod.splits option.splits outcome.splits)

lemma Build_nil_iff:
  "fst (Build env docker contextDirectory imagePath args) = Returns None \<longleftrightarrow>
     (\<exists>buildCtx response.
        CreateTar env contextDirectory defaultDockerfile = Inr buildCtx
      \<and> ImageBuild (cli docker) buildCtx
           \<lparr>Tags = [imagePath], NoCache = noCache docker, Remove = True,
            ForceRemove = forceRm docker, PullParent = pull docker,
            Dockerfile = defaultDockerfile, AuthConfigs = registryAuthMap docker,
            BuildArgs = args\<rparr> = (response, None)
      \<and> detectErrorMessage (Body response) = Returns None)"
  by (auto simp: Build_def Let_def detectErrorMessage_def
           split: sum.splits prod.splits option.splits outcome.splits)

text \<open>
  Claim C3, as amended. \<^verbatim>\<open>Pull\<close> and \<^verbatim>\<open>Push\<close> send exactly one request to the engine;
  \<^verbatim>\<open>Build\<close> sends exactly one when \<^verbatim>\<open>CreateTar\<close> succeeds and none when it fails; no
  operation sends a second request. Each operation returns nil exactly when its request
  succeeds and the response stream, decoded in order, reaches its end after messages none
  of which carries an embedded error.
\<close>

theorem one_call_then_scan:
  "length (calls (snd (Pull docker imagePath))) = 1
   \<and> (fst (Pull docker imagePath) = Returns None \<longleftrightarrow>
        (\<exists>ms. ImagePull (cli docker) imagePath \<lparr>RegistryAuth = ''''\<rparr>
                = (Some (feed ms (Failed EOF)), None)
           \<and> (\<forall>m \<in> set ms. embedded_error m = None)))
   \<and> length (calls (snd (Push docker imagePath))) = 1
   \<and> (fst (Push docker imagePath) = Returns None \<longleftrightarrow>
        (\<exists>ms. ImagePush (cli docker) imagePath \<lparr>RegistryAuth = registryAuthString docker\<rparr>
                = (Some (feed ms (Failed EOF)), None)
           \<and> (\<forall>m \<in> set ms. embedded_error m = None)))
   \<and> length (calls (snd (Build env docker contextDirectory imagePath args))) =
        (case CreateTar env contextDirectory ''Dockerfile'' of Inl err \<Rightarrow> 0 | Inr buildCtx \<Rightarrow> 1)
   \<and> (fst (Build env docker contextDirectory imagePath args) = Returns None \<longleftrightarrow>
        (\<exists>buildCtx ms.
           CreateTar env contextDirectory ''Dockerfile'' = Inr buildCtx
         \<and> ImageBuild (cli docker) buildCtx
              \<lparr>Tags = [imagePath], NoCache = noCache docker, Remove = True,
               ForceRemove = forceRm docker, PullParent = pull docker,
               Dockerfile = ''Dockerfile'', AuthConfigs = registryAuthMap docker,
               BuildArgs = args\<rparr> = (\<lparr>Body = Some (feed ms (Failed EOF))\<rparr>, None)
         \<and> (\<forall>m \<in> set ms. embedded_error m = None)))"
proof (intro conjI)
  show "length (calls (snd (Pull docker imagePath))) = 1"
    by (simp add: Pull_calls)
  show "length (calls (snd (Push docker imagePath))) = 1"
    by (simp add: Push_calls)
  show "length (calls (snd (Build env docker contextDirectory imagePath args))) =
        (case CreateTar env contextDirectory ''Dockerfile'' of Inl err \<Rightarrow> 0 | Inr buildCtx \<Rightarrow> 1)"
    by (simp add: Build_calls defaultDockerfile_def split: sum.splits)
  show "fst (Pull docker imagePath) = Returns None \<longleftrightarrow>
        (\<exists>ms. ImagePull (cli docker) imagePath \<lparr>RegistryAuth = ''''\<rparr>
                = (Some (feed ms (Failed EOF)), None)
           \<and> (\<forall>m \<in> set ms. embedded_error m = None))"
    unfolding Pull_nil_iff detectErrorMessage_nil_iff by blast
  show "fst (Push docker imagePath) = Returns None \<longleftrightarrow>
        (\<exists>ms. ImagePush (cli docker) imagePath \<lparr>RegistryAuth = registryAuthString docker\<rparr>
                = (Some (feed ms (Failed EOF)), None)
           \<and> (\<forall>m \<in> set ms. embedded_error m = None))"
    unfolding Push_nil_iff detectErrorMessage_nil_iff by blast
  have body: "\<And>response r. Body response = Some r \<longleftrightarrow> response = \<lparr>Body = Some r\<rparr>"
    by auto
  show "fst (Build env docker contextDirectory imagePath args) = Returns None \<longleftrightarrow>
        (\<exists>buildCtx ms.
           CreateTar env contextDirectory ''Dockerfile'' = Inr buildCtx
         \<and> ImageBuild (cli docker) buildCtx
              \<lparr>Tags = [imagePath], NoCache = noCache docker, Remove = True,
               ForceRemove = forceRm docker, PullParent = pull docker,
               Dockerfile = ''Dockerfile'', AuthConfigs = registryAuthMap docker,
               BuildArgs = args\<rparr> = (\<lparr>Body = Some (feed ms (Failed EOF))\<rparr>, None)
         \<and> (\<forall>m \<in> set ms. embedded_error m = None))"
    unfolding Build_nil_iff detectErrorMessage_nil_iff body defaultDockerfile_def by blast
qed

text \<open>
  The claim as first stated fails twice. \<^verbatim>\<open>Build\<close> on a context without a Dockerfile
  returns the error of \<^verbatim>\<open>CreateTar\<close> and sends nothing to the engine. And a pull whose
  request succeeds and whose stream holds no embedded error, but breaks off inside a JSON
  value, returns the decoder's error instead of nil.
\<close>

theorem one_call_then_scan_counterexample:
  "Build (machine good_engine []) (sample_docker good_engine) ''/ctx'' ''build-test:master'' Map.empty
     = (Returns (Some (FmtErrorf ''Cannot locate Dockerfile: /ctx/Dockerfile'')), [])
   \<and> ImagePull (cli (sample_docker garbled_engine)) ''ubuntu:16.04'' \<lparr>RegistryAuth = ''''\<rparr>
     = (Some (Decoded progress_msg (Failed (LibError ''unexpected EOF''))), None)
   \<and> embedded_error progress_msg = None
   \<and> Pull (sample_docker garbled_engine) ''ubuntu:16.04''
     = (Returns (Some (LibError ''unexpected EOF'')),
        [CallImagePull ''ubuntu:16.04'' \<lparr>RegistryAuth = ''''\<rparr>, CloseBody])"
proof (intro conjI)
  show "Build (machine good_engine []) (sample_docker good_engine) ''/ctx''
               ''build-test:master'' Map.empty
             = (Returns (Some (FmtErrorf ''Cannot locate Dockerfile: /ctx/Dockerfile'')), [])"
    by (simp add: Build_def defaultDockerfile_def CreateTar_empty_context)
  show "ImagePull (cli (sample_docker garbled_engine)) ''ubuntu:16.04'' \<lparr>RegistryAuth = ''''\<rparr>
     = (Some (Decoded progress_msg (Failed (LibError ''unexpected EOF''))), None)"
    by (simp add: sample_docker_def garbled_engine_def)
  show clean: "embedded_error progress_msg = None"
    by (simp add: embedded_error_def progress_msg_def)
  show "Pull (sample_docker garbled_engine) ''ubuntu:16.04''
     = (Returns (Some (LibError ''unexpected EOF'')),
        [CallImagePull ''ubuntu:16.04'' \<lparr>RegistryAuth = ''''\<rparr>, CloseBody])"
    by (simp add: Pull_def sample_docker_def garbled_engine_def detectErrorMessage_def
                  decodeLoop_Decoded decodeLoop_Failed clean)
qed

theorem one_call_then_scan_witness:
  "fst (Pull (sample_docker good_engine) ''ubuntu:16.04'') = Returns None
   \<and> fst (Push (sample_docker good_engine) ''build-test:master'') = Returns None
   \<and> length (calls (snd (Push (sample_docker down_engine) ''build-test:master''))) = 1
   \<and> fst (Build (machine good_engine [(''/ctx/Dockerfile'', ''FROM scratch'')])
             (sample_docker good_engine) ''/ctx'' ''build-test:master'' Map.empty) = Returns None
   \<and> length (calls (snd (Build (machine good_engine [(''/ctx/Dockerfile'', ''FROM scratch'')])
             (sample_docker good_engine) ''/ctx'' ''build-test:master'' Map.empty))) = 1"
proof -
  let ?env = "machine good_engine [(''/ctx/Dockerfile'', ''FROM scratch'')]"
  let ?d = "sample_docker good_engine"
  have tar: "CreateTar ?env ''/ctx'' ''Dockerfile'' = Inr ''tar /ctx -T .''"
    by (rule CreateTar_plain_context)
  have clean: "Decoded progress_msg (Failed EOF) = feed [progress_msg] (Failed EOF)"
              "\<forall>m \<in> set [progress_msg]. embedded_error m = None"
    by (simp_all add: embedded_error_def progress_msg_def)
  have pull: "\<exists>ms. ImagePull (cli ?d) ''ubuntu:16.04'' \<lparr>RegistryAuth = ''''\<rparr>
                = (Some (feed ms (Failed EOF)), None) \<and> (\<forall>m \<in> set ms. embedded_error m = None)"
    by (rule exI[of _ "[progress_msg]"]) (simp add: clean(2) sample_docker_def good_engine_def)
  have push: "\<exists>ms. ImagePush (cli ?d) ''build-test:master'' \<lparr>RegistryAuth = registryAuthString ?d\<rparr>
                = (Some (feed ms (Failed EOF)), None) \<and> (\<forall>m \<in> set ms. embedded_error m = None)"
    by (rule exI[of _ "[progress_msg]"]) (simp add: clean(2) sample_docker_def good_engine_def)
  have build: "\<exists>buildCtx ms.
           CreateTar ?env ''/ctx'' ''Dockerfile'' = Inr buildCtx
         \<and> ImageBuild (cli ?d) buildCtx
              \<lparr>Tags = [''build-test:master''], NoCache = noCache ?d, Remove = True,
               ForceRemove = forceRm ?d, PullParent = pull ?d,
               Dockerfile = ''Dockerfile'', AuthConfigs = registryAuthMap ?d,
               BuildArgs = Map.empty\<rparr> = (\<lparr>Body = Some (feed ms (Failed EOF))\<rparr>, None)
         \<and> (\<forall>m \<in> set ms. embedded_error m = None)"
    apply (rule exI[of _ "''tar /ctx -T .''"], rule exI[of _ "[progress_msg]"])
    by (simp add: CreateTar_plain_context clean(2) sample_docker_def good_engine_def)
  note t1 = one_call_then_scan[where docker = ?d and imagePath = "''ubuntu:16.04''"]
  note t2 = one_call_then_scan[where docker = ?d and imagePath = "''build-test:master''"
              and env = ?env and contextDirectory = "''/ctx''" and args = Map.empty]
  note t3 = one_call_then_scan[where docker = "sample_docker down_engine"
              and imagePath = "''build-test:master''"]
  from t1 pull have "fst (Pull ?d ''ubuntu:16.04'') = Returns None" by blast
  moreover from t2 push have "fst (Push ?d ''build-test:master'') = Returns None" by blast
  moreover from t3 have "length (calls (snd (Push (sample_docker down_engine) ''build-test:master''))) = 1"
    by blast
  moreover from t2 build have "fst (Build ?env ?d ''/ctx'' ''build-test:master'' Map.empty) = Returns None"
    by blast
  moreover from t2 tar have "length (calls (snd (Build ?env ?d ''/ctx'' ''build-test:master'' Map.empty))) = 1"
    by simp
  ultimately show ?thesis by blast
qed

text \<open>
  Claim C4 says that \<^verbatim>\<open>Build\<close>, \<^verbatim>\<open>Pull\<close> and \<^verbatim>\<open>Push\<close> close the response stream on every
  path and that closing never faults, in particular that \<^verbatim>\<open>Build\<close> does not dereference a
  nil body when \<^verbatim>\<open>ImageBuild\<close> fails. On an engine that refuses the request and, as the
  client library does, answers with a nil body, \<^verbatim>\<open>Pull\<close> and \<^verbatim>\<open>Push\<close> return the
  engine's error, while \<^verbatim>\<open>Build\<close> panics: only the build context is closed and the
  engine's error never reaches the caller.
\<close>

theorem Build_panics_when_ImageBuild_fails:
  "ImageBuild (cli (sample_docker down_engine)) ''tar /ctx -T .''
      \<lparr>Tags = [''build-test:master''], NoCache = True, Remove = True, ForceRemove = True,
       PullParent = True, Dockerfile = ''Dockerfile'',
       AuthConfigs = registryAuthMap (sample_docker down_engine), BuildArgs = Map.empty\<rparr>
     = (\<lparr>Body = None\<rparr>, Some refused)
   \<and> Build (machine down_engine [(''/ctx/Dockerfile'', ''FROM scratch'')])
        (sample_docker down_engine) ''/ctx'' ''build-test:master'' Map.empty
     = (Panics,
        [CallImageBuild ''tar /ctx -T .''
           \<lparr>Tags = [''build-test:master''], NoCache = True, Remove = True, ForceRemove = True,
            PullParent = True, Dockerfile = ''Dockerfile'',
            AuthConfigs = registryAuthMap (sample_docker down_engine), BuildArgs = Map.empty\<rparr>,
         CloseBuildContext])
   \<and> Pull (sample_docker down_engine) ''ubuntu:16.04''
     = (Returns (Some refused), [CallImagePull ''ubuntu:16.04'' \<lparr>RegistryAuth = ''''\<rparr>])
   \<and> Push (sample_docker down_engine) ''build-test:master''
     = (Returns (Some refused),
        [CallImagePush ''build-test:master'' \<lparr>RegistryAuth = ''b64-alice:s3cret''\<rparr>])"
proof (intro conjI)
  show "ImageBuild (cli (sample_docker down_engine)) ''tar /ctx -T .''
      \<lparr>Tags = [''build-test:master''], NoCache = True, Remove = True, ForceRemove = True,
       PullParent = True, Dockerfile = ''Dockerfile'',
       AuthConfigs = registryAuthMap (sample_docker down_engine), BuildArgs = Map.empty\<rparr>
     = (\<lparr>Body = None\<rparr>, Some refused)"
    by (simp add: sample_docker_def down_engine_def)
  show "Build (machine down_engine [(''/ctx/Dockerfile'', ''FROM scratch'')])
        (sample_docker down_engine) ''/ctx'' ''build-test:master'' Map.empty
     = (Panics,
        [CallImageBuild ''tar /ctx -T .''
           \<lparr>Tags = [''build-test:master''], NoCache = True, Remove = True, ForceRemove = True,
            PullParent = True, Dockerfile = ''Dockerfile'',
            AuthConfigs = registryAuthMap (sample_docker down_engine), BuildArgs = Map.empty\<rparr>,
         CloseBuildContext])"
    by (simp add: Build_def CreateTar_plain_context defaultDockerfile_def sample_docker_def
                  down_engine_def)
  show "Pull (sample_docker down_engine) ''ubuntu:16.04''
     = (Returns (Some refused), [CallImagePull ''ubuntu:16.04'' \<lparr>RegistryAuth = ''''\<rparr>])"
    by (simp add: Pull_def sample_docker_def down_engine_def)
  show "Push (sample_docker down_engine) ''build-test:master''
     = (Returns (Some refused),
        [CallImagePush ''build-test:master'' \<lparr>RegistryAuth = ''b64-alice:s3cret''\<rparr>])"
    by (simp add: Push_def sample_docker_def down_engine_def)
qed

subsection \<open>Which errors reach the caller\<close>

lemma CreateTar_Abs_fails:
  "filepath_Abs env contextDirectory = Inl e \<Longrightarrow> CreateTar env contextDirectory dockerfile = Inl e"
  by (simp add: CreateTar_def)

lemma CreateTar_Abs_filename_fails:
  assumes "filepath_Abs env contextDirectory = Inr a"
    and "dockerfilePath env contextDirectory a dockerfile = (orig, fn)"
    and "filepath_Abs env fn = Inl e"
  shows "CreateTar env contextDirectory dockerfile = Inl e"
  using assms by (simp add: CreateTar_def)

lemma CreateTar_Rel_fails:
  assumes "filepath_Abs env contextDirectory = Inr a"
    and "dockerfilePath env contextDirectory a dockerfile = (orig, fn)"
    and "filepath_Abs env fn = Inr f"
    and "filepath_Rel env a f = Inl e"
  shows "CreateTar env contextDirectory dockerfile = Inl e"
  using assms by (simp add: CreateTar_def)

lemma CreateTar_canonical_fails:
  assumes "filepath_Abs env contextDirectory = Inr a"
    and "dockerfilePath env contextDirectory a dockerfile = (orig, fn)"
    and "filepath_Abs env fn = Inr f"
    and "filepath_Rel env a f = Inr r"
    and "archive_CanonicalTarNameForPath env r = (c, Some e)"
  shows "CreateTar env contextDirectory dockerfile =
           Inl (FmtErrorf (''Cannot canonicalize dockerfile path '' @ c @ '': '' @ Error_of e))"
  using assms by (simp add: CreateTar_def)

text \<open>
  Claim C2, as amended. \<^verbatim>\<open>Tag\<close>, \<^verbatim>\<open>Rmi\<close>, \<^verbatim>\<open>List\<close>, \<^verbatim>\<open>Pull\<close> and \<^verbatim>\<open>Push\<close> return the
  error of their engine call unmodified; \<^verbatim>\<open>Build\<close> returns unmodified the error of
  \<^verbatim>\<open>CreateTar\<close> and, when the response has a body, the error of \<^verbatim>\<open>ImageBuild\<close>.
  \<^verbatim>\<open>CreateTar\<close> returns unmodified the errors of \<^verbatim>\<open>filepath.Abs\<close>, \<^verbatim>\<open>filepath.Rel\<close>,
  \<^verbatim>\<open>os.Open\<close> (other than a missing file), \<^verbatim>\<open>dockerignore.ReadAll\<close> and
  \<^verbatim>\<open>TarWithOptions\<close>. It replaces three errors by formatted errors of its own: that of
  \<^verbatim>\<open>CanonicalTarNameForPath\<close>, the missing-file error of \<^verbatim>\<open>os.Lstat\<close> on the Dockerfile,
  and that of \<^verbatim>\<open>ValidateContextDirectory\<close>.
\<close>

theorem errors_passed_through:
  "(ImageTag (cli docker) imagePath newImagePath = Some e \<longrightarrow>
        fst (Tag docker imagePath newImagePath) = Returns (Some e))
   \<and> (ImageRemove (cli docker) imagePath = Some e \<longrightarrow>
        fst (Rmi docker imagePath) = Returns (Some e))
   \<and> (snd (ImageList (cli docker)
              \<lparr>Filters = foldl (\<lambda>args (k, v). Add args k v) NewArgs fltr\<rparr>) = Some e \<longrightarrow>
        fst (List docker fltr) = Returns (Inl e))
   \<and> (snd (ImagePull (cli docker) imagePath \<lparr>RegistryAuth = ''''\<rparr>) = Some e \<longrightarrow>
        fst (Pull docker imagePath) = Returns (Some e))
   \<and> (snd (ImagePush (cli docker) imagePath \<lparr>RegistryAuth = registryAuthString docker\<rparr>) = Some e \<longrightarrow>
        fst (Push docker imagePath) = Returns (Some e))
   \<and> (CreateTar env contextDirectory ''Dockerfile'' = Inl e \<longrightarrow>
        fst (Build env docker contextDirectory imagePath args) = Returns (Some e))
   \<and> (CreateTar env contextDirectory ''Dockerfile'' = Inr buildCtx
        \<and> ImageBuild (cli docker) buildCtx
             \<lparr>Tags = [imagePath], NoCache = noCache docker, Remove = True,
              ForceRemove = forceRm docker, PullParent = pull docker,
              Dockerfile = ''Dockerfile'', AuthConfigs = registryAuthMap docker,
              BuildArgs = args\<rparr> = (\<lparr>Body = Some body\<rparr>, Some e) \<longrightarrow>
        fst (Build env docker contextDirectory imagePath args) = Returns (Some e))
   \<and> (filepath_Abs env contextDirectory = Inl e \<longrightarrow>
        CreateTar env contextDirectory dockerfile = Inl e)
   \<and> (filepath_Abs env contextDirectory = Inr a
        \<and> dockerfilePath env contextDirectory a dockerfile = (orig, fn)
        \<and> filepath_Abs env fn = Inl e \<longrightarrow>
        CreateTar env contextDirectory dockerfile = Inl e)
   \<and> (filepath_Abs env contextDirectory = Inr a
        \<and> dockerfilePath env contextDirectory a dockerfile = (orig, fn)
        \<and> filepath_Abs env fn = Inr f
        \<and> filepath_Rel env a f = Inl e \<longrightarrow>
        CreateTar env contextDirectory dockerfile = Inl e)
   \<and> (filepath_Abs env contextDirectory = Inr a
        \<and> dockerfilePath env contextDirectory a dockerfile = (orig, fn)
        \<and> filepath_Abs env fn = Inr f
        \<and> filepath_Rel env a f = Inr r
        \<and> archive_CanonicalTarNameForPath env r = (c, None)
        \<and> \<not> IsNotExist (os_Lstat env f)
        \<and> os_Open env (path_Join env contextDirectory ''.dockerignore'') = Inl e
        \<and> \<not> IsNotExist (Some e) \<longrightarrow>
        CreateTar env contextDirectory dockerfile = Inl e)
   \<and> (filepath_Abs env contextDirectory = Inr a
        \<and> dockerfilePath env contextDirectory a dockerfile = (orig, fn)
        \<and> filepath_Abs env fn = Inr f
        \<and> filepath_Rel env a f = Inr r
        \<and> archive_CanonicalTarNameForPath env r = (c, None)
        \<and> \<not> IsNotExist (os_Lstat env f)
        \<and> os_Open env (path_Join env contextDirectory ''.dockerignore'') = Inr dockerIgnore
        \<and> dockerignore_ReadAll env dockerIgnore = Inl e \<longrightarrow>
        CreateTar env contextDirectory dockerfile = Inl e)
   \<and> (filepath_Abs env contextDirectory = Inr a
        \<and> dockerfilePath env contextDirectory a dockerfile = (orig, fn)
        \<and> filepath_Abs env fn = Inr f
        \<and> filepath_Rel env a f = Inr r
        \<and> archive_CanonicalTarNameForPath env r = (c, None)
        \<and> \<not> IsNotExist (os_Lstat env f)
        \<and> ((os_Open env (path_Join env contextDirectory ''.dockerignore'') = Inl e' \<and> IsNotExist (Some e') \<and> excludes = [])
          \<or> (os_Open env (path_Join env contextDirectory ''.dockerignore'') = Inr dockerIgnore
              \<and> dockerignore_ReadAll env dockerIgnore = Inr excludes))
        \<and> builder_ValidateContextDirectory env contextDirectory excludes = None
        \<and> archive_TarWithOptions env contextDirectory
             \<lparr>Compression = Uncompressed, ExcludePatterns = excludes,
              IncludeFiles =
                (if fst (fileutils_Matches env ''.dockerignore'' excludes)
                    \<or> fst (fileutils_Matches env c excludes)
                 then [''.'', ''.dockerignore'', c] else [''.''])\<rparr> = Inl e \<longrightarrow>
        CreateTar env contextDirectory dockerfile = Inl e)
   \<and> (filepath_Abs env contextDirectory = Inr a
        \<and> dockerfilePath env contextDirectory a dockerfile = (orig, fn)
        \<and> filepath_Abs env fn = Inr f
        \<and> filepath_Rel env a f = Inr r
        \<and> archive_CanonicalTarNameForPath env r = (c, Some e) \<longrightarrow>
        CreateTar env contextDirectory dockerfile =
          Inl (FmtErrorf (''Cannot canonicalize dockerfile path '' @ c @ '': '' @ Error_of e)))
   \<and> (filepath_Abs env contextDirectory = Inr a
        \<and> dockerfilePath env contextDirectory a dockerfile = (orig, fn)
        \<and> filepath_Abs env fn = Inr f
        \<and> filepath_Rel env a f = Inr r
        \<and> archive_CanonicalTarNameForPath env r = (c, None)
        \<and> IsNotExist (os_Lstat env f) \<longrightarrow>
        CreateTar env contextDirectory dockerfile =
          Inl (FmtErrorf (''Cannot locate Dockerfile: '' @ orig)))
   \<and> (filepath_Abs env contextDirectory = Inr a
        \<and> dockerfilePath env contextDirectory a dockerfile = (orig, fn)
        \<and> filepath_Abs env fn = Inr f
        \<and> filepath_Rel env a f = Inr r
        \<and> archive_CanonicalTarNameForPath env r = (c, None)
        \<and> \<not> IsNotExist (os_Lstat env f)
        \<and> ((os_Open env (path_Join env contextDirectory ''.dockerignore'') = Inl e' \<and> IsNotExist (Some e') \<and> excludes = [])
          \<or> (os_Open env (path_Join env contextDirectory ''.dockerignore'') = Inr dockerIgnore
              \<and> dockerignore_ReadAll env dockerIgnore = Inr excludes))
        \<and> builder_ValidateContextDirectory env contextDirectory excludes = Some e \<longrightarrow>
        CreateTar env contextDirectory dockerfile =
          Inl (FmtErrorf (''Error checking context is accessible: '' @ [CHR 0x27] @ Error_of e @
                 [CHR 0x27] @ ''. Please check permissions and try again.'')))"
proof -
  have engine:
    "ImageTag (cli docker) imagePath newImagePath = Some e \<longrightarrow>
       fst (Tag docker imagePath newImagePath) = Returns (Some e)"
    "ImageRemove (cli docker) imagePath = Some e \<longrightarrow> fst (Rmi docker imagePath) = Returns (Some e)"
    "snd (ImageList (cli docker)
            \<lparr>Filters = foldl (\<lambda>args (k, v). Add args k v) NewArgs fltr\<rparr>) = Some e \<longrightarrow>
       fst (List docker fltr) = Returns (Inl e)"
    "snd (ImagePull (cli docker) imagePath \<lparr>RegistryAuth = ''''\<rparr>) = Some e \<longrightarrow>
       fst (Pull docker imagePath) = Returns (Some e)"
    "snd (ImagePush (cli docker) imagePath \<lparr>RegistryAuth = registryAuthString docker\<rparr>) = Some e
       \<longrightarrow> fst (Push docker imagePath) = Returns (Some e)"
    by (simp_all add: Tag_def Rmi_def List_def Pull_def Push_def Let_def split: prod.splits)
  have build:
    "CreateTar env contextDirectory ''Dockerfile'' = Inl e \<longrightarrow>
       fst (Build env docker contextDirectory imagePath args) = Returns (Some e)"
    "CreateTar env contextDirectory ''Dockerfile'' = Inr buildCtx
       \<and> ImageBuild (cli docker) buildCtx
            \<lparr>Tags = [imagePath], NoCache = noCache docker, Remove = True,
             ForceRemove = forceRm docker, PullParent = pull docker,
             Dockerfile = ''Dockerfile'', AuthConfigs = registryAuthMap docker,
             BuildArgs = args\<rparr> = (\<lparr>Body = Some body\<rparr>, Some e) \<longrightarrow>
       fst (Build env docker contextDirectory imagePath args) = Returns (Some e)"
    by (simp_all add: Build_def defaultDockerfile_def)
  note early = CreateTar_Abs_fails[of env contextDirectory e dockerfile]
    CreateTar_Abs_filename_fails[of env contextDirectory a dockerfile orig fn e]
    CreateTar_Rel_fails[of env contextDirectory a dockerfile orig fn f e]
    CreateTar_canonical_fails[of env contextDirectory a dockerfile orig fn f r c e]
    CreateTar_missing[of env contextDirectory a dockerfile orig fn f r c]
  note late = CreateTar_located[of env contextDirectory a dockerfile orig fn f r c]
  have tail:
    "os_Open env (path_Join env contextDirectory ''.dockerignore'') = Inl e
       \<and> \<not> IsNotExist (Some e) \<longrightarrow>
     (case (case os_Open env (path_Join env contextDirectory ''.dockerignore'') of
              Inl err \<Rightarrow> if \<not> IsNotExist (Some err) then Inl err else Inr []
            | Inr dockerIgnore \<Rightarrow> dockerignore_ReadAll env dockerIgnore) of
        Inl err \<Rightarrow> Inl err
      | Inr excludes \<Rightarrow> g excludes) = Inl e"
    "os_Open env (path_Join env contextDirectory ''.dockerignore'') = Inr dockerIgnore
       \<and> dockerignore_ReadAll env dockerIgnore = Inl e \<longrightarrow>
     (case (case os_Open env (path_Join env contextDirectory ''.dockerignore'') of
              Inl err \<Rightarrow> if \<not> IsNotExist (Some err) then Inl err else Inr []
            | Inr dockerIgnore \<Rightarrow> dockerignore_ReadAll env dockerIgnore) of
        Inl err \<Rightarrow> Inl err
      | Inr excludes \<Rightarrow> g excludes) = Inl e"
    "(os_Open env (path_Join env contextDirectory ''.dockerignore'') = Inl e'
         \<and> IsNotExist (Some e') \<and> excludes = [])
       \<or> (os_Open env (path_Join env contextDirectory ''.dockerignore'') = Inr dockerIgnore
         \<and> dockerignore_ReadAll env dockerIgnore = Inr excludes) \<longrightarrow>
     (case (case os_Open env (path_Join env contextDirectory ''.dockerignore'') of
              Inl err \<Rightarrow> if \<not> IsNotExist (Some err) then Inl err else Inr []
            | Inr dockerIgnore \<Rightarrow> dockerignore_ReadAll env dockerIgnore) of
        Inl err \<Rightarrow> Inl err
      | Inr excludes \<Rightarrow> g excludes) = g excludes"
    for g :: "string list \<Rightarrow> error + archive"
    by auto
  show ?thesis
    apply (intro conjI)
                   apply (rule engine build)+
            apply (use early in blast)
           apply (use early in blast)
          apply (use early in blast)
         apply (use late tail(1) in force)
        apply (use late tail(2) in force)
       apply (use late tail(3) in force)
      apply (use early in blast)
     apply (use early in blast)
    apply (use late tail(3) in force)
    done
qed

text \<open>
  The claim as first stated fails in \<^verbatim>\<open>CreateTar\<close>: on a context without a Dockerfile
  \<^verbatim>\<open>os.Lstat\<close> reports a missing file, and what the caller gets is a new error with
  another text.
\<close>

theorem errors_passed_through_counterexample:
  "os_Lstat (machine good_engine []) ''/ctx/Dockerfile''
     = Some (NotExist ''lstat /ctx/Dockerfile: no such file or directory'')
   \<and> CreateTar (machine good_engine []) ''/ctx'' ''Dockerfile''
     = Inl (FmtErrorf ''Cannot locate Dockerfile: /ctx/Dockerfile'')
   \<and> CreateTar (machine good_engine []) ''/ctx'' ''Dockerfile''
     \<noteq> Inl (NotExist ''lstat /ctx/Dockerfile: no such file or directory'')"
  by (simp add: CreateTar_empty_context) (simp add: machine_def)

theorem errors_passed_through_witness:
  "fst (Tag (sample_docker down_engine) ''ubuntu:16.04'' ''newRepoHost.com/ubuntu:7'')
     = Returns (Some refused)
   \<and> fst (Rmi (sample_docker down_engine) ''newRepoHost.com/ubuntu:7'') = Returns (Some refused)
   \<and> fst (List (sample_docker down_engine) []) = Returns (Inl refused)
   \<and> fst (Pull (sample_docker down_engine) ''ubuntu:16.04'') = Returns (Some refused)
   \<and> fst (Push (sample_docker down_engine) ''ubuntu:16.04'') = Returns (Some refused)
   \<and> CreateTar locked_machine ''/ctx'' ''Dockerfile''
     = Inl (LibError ''open /ctx/.dockerignore: permission denied'')
   \<and> CreateTar (machine good_engine []) ''/ctx'' ''Dockerfile''
     = Inl (FmtErrorf ''Cannot locate Dockerfile: /ctx/Dockerfile'')"
proof -
  let ?d = "sample_docker down_engine"
  note engine = errors_passed_through
      [where docker = ?d and imagePath = "''ubuntu:16.04''"
         and newImagePath = "''newRepoHost.com/ubuntu:7''" and fltr = "[]" and e = refused]
  note removal = errors_passed_through
      [where docker = ?d and imagePath = "''newRepoHost.com/ubuntu:7''" and e = refused]
  have answers:
    "ImageTag (cli ?d) ''ubuntu:16.04'' ''newRepoHost.com/ubuntu:7'' = Some refused"
    "ImageRemove (cli ?d) ''newRepoHost.com/ubuntu:7'' = Some refused"
    "snd (ImageList (cli ?d) \<lparr>Filters = foldl (\<lambda>args (k, v). Add args k v) NewArgs []\<rparr>)
       = Some refused"
    "snd (ImagePull (cli ?d) ''ubuntu:16.04'' \<lparr>RegistryAuth = ''''\<rparr>) = Some refused"
    "snd (ImagePush (cli ?d) ''ubuntu:16.04'' \<lparr>RegistryAuth = registryAuthString ?d\<rparr>)
       = Some refused"
    by (simp_all add: sample_docker_def down_engine_def)
  have locked_path:
    "dockerfilePath locked_machine ''/ctx'' ''/ctx'' ''Dockerfile''
       = (''/ctx/Dockerfile'', ''/ctx/Dockerfile'')"
    by (simp add: dockerfilePath_named locked_machine_def machine_def)
  have locked: "CreateTar locked_machine ''/ctx'' ''Dockerfile''
     = Inl (LibError ''open /ctx/.dockerignore: permission denied'')"
    using locked_path errors_passed_through
      [where env = locked_machine and contextDirectory = "''/ctx''" and a = "''/ctx''"
         and dockerfile = "''Dockerfile''" and orig = "''/ctx/Dockerfile''"
         and fn = "''/ctx/Dockerfile''" and f = "''/ctx/Dockerfile''"
         and r = "''Dockerfile''" and c = "''Dockerfile''"
         and e = "LibError ''open /ctx/.dockerignore: permission denied''"]
    by (simp add: locked_machine_def machine_def)
  have bare_path:
    "dockerfilePath (machine good_engine []) ''/ctx'' ''/ctx'' ''Dockerfile''
       = (''/ctx/Dockerfile'', ''/ctx/Dockerfile'')"
    by (simp add: dockerfilePath_named machine_def)
  have missing: "CreateTar (machine good_engine []) ''/ctx'' ''Dockerfile''
     = Inl (FmtErrorf ''Cannot locate Dockerfile: /ctx/Dockerfile'')"
    using bare_path errors_passed_through
      [where env = "machine good_engine []" and contextDirectory = "''/ctx''" and a = "''/ctx''"
         and dockerfile = "''Dockerfile''" and orig = "''/ctx/Dockerfile''"
         and fn = "''/ctx/Dockerfile''" and f = "''/ctx/Dockerfile''"
         and r = "''Dockerfile''" and c = "''Dockerfile''"]
    by (simp add: machine_def)
  note tag = engine[THEN conjunct1, rule_format, OF answers(1)]
  note rmi = removal[THEN conjunct2, THEN conjunct1, rule_format, OF answers(2)]
  note list = engine[THEN conjunct2, THEN conjunct2, THEN conjunct1, rule_format, OF answers(3)]
  note pull = engine[THEN conjunct2, THEN conjunct2, THEN conjunct2, THEN conjunct1,
                     rule_format, OF answers(4)]
  note push = engine[THEN conjunct2, THEN conjunct2, THEN conjunct2, THEN conjunct2,
                     THEN conjunct1, rule_format, OF answers(5)]
  from tag rmi list pull push locked missing show ?thesis by simp
qed

end
